theory Spec2Isabelle
  imports Complex_Main
begin

section \<open>Strings\<close>

text \<open>
  A JavaScript string is modelled as a \<open>string\<close> whose characters are its code units, all
  below 256 (the Latin-1 range). On such strings \<open>toLowerCase\<close> maps the letters A to Z
  and the capital letters of \<open>0xC0\<close> to \<open>0xDE\<close> (the multiplication sign \<open>0xD7\<close>
  apart) to their small letters, 32 further on, and leaves every other character as it is;
  \<open>includesStr\<close> is \<open>String.prototype.includes\<close> (a contiguous substring test);
  \<open>trim\<close> removes the white space of both ends: the space, the characters \<open>0x09\<close> to
  \<open>0x0D\<close> and the no-break space \<open>0xA0\<close>.
\<close>

definition upperChars :: string where
  "upperChars =
     ''ABCDEFGHIJKLMNOPQRSTUVWXYZ'' @
     [CHR 0xC0, CHR 0xC1, CHR 0xC2, CHR 0xC3, CHR 0xC4, CHR 0xC5, CHR 0xC6, CHR 0xC7,
      CHR 0xC8, CHR 0xC9, CHR 0xCA, CHR 0xCB, CHR 0xCC, CHR 0xCD, CHR 0xCE, CHR 0xCF,
      CHR 0xD0, CHR 0xD1, CHR 0xD2, CHR 0xD3, CHR 0xD4, CHR 0xD5, CHR 0xD6,
      CHR 0xD8, CHR 0xD9, CHR 0xDA, CHR 0xDB, CHR 0xDC, CHR 0xDD, CHR 0xDE]"

definition lowerChars :: string where
  "lowerChars =
     ''abcdefghijklmnopqrstuvwxyz'' @
     [CHR 0xE0, CHR 0xE1, CHR 0xE2, CHR 0xE3, CHR 0xE4, CHR 0xE5, CHR 0xE6, CHR 0xE7,
      CHR 0xE8, CHR 0xE9, CHR 0xEA, CHR 0xEB, CHR 0xEC, CHR 0xED, CHR 0xEE, CHR 0xEF,
      CHR 0xF0, CHR 0xF1, CHR 0xF2, CHR 0xF3, CHR 0xF4, CHR 0xF5, CHR 0xF6,
      CHR 0xF8, CHR 0xF9, CHR 0xFA, CHR 0xFB, CHR 0xFC, CHR 0xFD, CHR 0xFE]"

definition lowerChar :: "char \<Rightarrow> char" where
  "lowerChar c =
     (case map_of (zip upperChars lowerChars) c of
        Some l \<Rightarrow> l
      | None \<Rightarrow> c)"

definition toLowerCase :: "string \<Rightarrow> string" where
  "toLowerCase s = map lowerChar s"

fun startsWith :: "string \<Rightarrow> string \<Rightarrow> bool" where
  "startsWith s [] = True"
| "startsWith [] (p # ps) = False"
| "startsWith (c # cs) (p # ps) = (c = p \<and> startsWith cs ps)"

fun includesStr :: "string \<Rightarrow> string \<Rightarrow> bool" where
  "includesStr [] sub = (sub = [])"
| "includesStr (c # cs) sub = (startsWith (c # cs) sub \<or> includesStr cs sub)"

definition isSpace :: "char \<Rightarrow> bool" where
  "isSpace c =
     (c \<in> set [CHR '' '', CHR 0x09, CHR 0x0A, CHR 0x0B, CHR 0x0C, CHR 0x0D, CHR 0xA0])"

definition trim :: "string \<Rightarrow> string" where
  "trim s = rev (dropWhile isSpace (rev (dropWhile isSpace s)))"

section \<open>Cookies and the cookie snapshot\<close>

text \<open>
  A cookie as Playwright gives and takes it. \<open>expires\<close> is a JavaScript number (epoch
  seconds, \<open>-1\<close> for a session cookie) and may be absent from a stored object, hence
  \<open>real option\<close>.
\<close>

record cookie =
  cname :: string
  cvalue :: string
  cdomain :: string
  cpath :: string
  httpOnly :: bool
  secure :: bool
  sameSite :: string
  expires :: "real option"

text \<open>What \<open>store.getValue(COOKIES_KV_KEY)\<close> can give to \<open>restoreSavedCookies\<close>.\<close>

datatype kv_read =
    KvThrows string
  | KvNothing
  | KvNotArray
  | KvCookies "cookie list"

text \<open>
  The test \<open>cookie.expires && cookie.expires > 0 && cookie.expires < now\<close>: an absent
  \<open>expires\<close> and the number 0 are falsy.
\<close>

definition isExpired :: "real \<Rightarrow> cookie \<Rightarrow> bool" where
  "isExpired now c =
     (case expires c of
        None \<Rightarrow> False
      | Some e \<Rightarrow> e \<noteq> 0 \<and> e > 0 \<and> e < now)"

text \<open>The body of the \<open>map\<close> callback: \<open>{ ...rest, expires: -1 }\<close> for an expired cookie.\<close>

definition fixCookie :: "real \<Rightarrow> cookie \<Rightarrow> cookie" where
  "fixCookie now c = (if isExpired now c then c\<lparr>expires := Some (- 1)\<rparr> else c)"

text \<open>\<open>restoreSavedCookies\<close>; \<open>now\<close> is \<open>Date.now() / 1000\<close>, \<open>None\<close> is \<open>null\<close>.\<close>

definition restoreSavedCookies :: "real \<Rightarrow> kv_read \<Rightarrow> cookie list option" where
  "restoreSavedCookies now r =
     (case r of
        KvThrows msg \<Rightarrow> None
      | KvNothing \<Rightarrow> None
      | KvNotArray \<Rightarrow> None
      | KvCookies savedCookies \<Rightarrow>
          (if savedCookies = [] then None else Some (map (fixCookie now) savedCookies)))"

section \<open>Humanized delays\<close>




section \<open>The page as the classifiers see it\<close>

text \<open>
  The predicates of the page-state classifier run inside \<open>page.evaluate\<close> and only read
  the document. A document is modelled by what they read: the text of the body, its
  visible text, and the elements in document order. An element carries its tag (lower
  case), its id, its classes, the properties \<open>name\<close>, \<open>placeholder\<close>, \<open>type\<close> and
  \<open>maxLength\<close> as the DOM reports them for an input (\<open>maxLength\<close> is \<open>-1\<close> when the
  attribute is not set), and its other attributes.
\<close>

record element =
  tag :: string
  el_id :: string
  classes :: "string list"
  el_name :: string
  placeholder :: string
  el_type :: string
  maxLength :: int
  attrs :: "(string \<times> string) list"

record page =
  textContent :: string
  innerText :: string
  elements :: "element list"

text \<open>The selectors the source hands to \<open>document.querySelector\<close>, as data.\<close>

datatype selector =
    TagId string string             \<comment> \<open>\<open>tag#id\<close>\<close>
  | IdSel string                    \<comment> \<open>\<open>#id\<close>\<close>
  | ClassSel string                 \<comment> \<open>\<open>.class\<close>\<close>
  | HasAttr string                  \<comment> \<open>\<open>[attr]\<close>\<close>
  | TagAttrHas string string string \<comment> \<open>\<open>tag[attr*="text"]\<close>\<close>
  | InputName string                \<comment> \<open>\<open>input[name="text"]\<close>\<close>
  | InputTypeMaxlength string int   \<comment> \<open>\<open>input[type="t"][maxlength="n"]\<close>\<close>

fun matches :: "selector \<Rightarrow> element \<Rightarrow> bool" where
  "matches (TagId t i) e = (tag e = t \<and> el_id e = i)"
| "matches (IdSel i) e = (el_id e = i)"
| "matches (ClassSel c) e = (c \<in> set (classes e))"
| "matches (HasAttr a) e = (map_of (attrs e) a \<noteq> None)"
| "matches (TagAttrHas t a v) e =
     (tag e = t \<and> (case map_of (attrs e) a of None \<Rightarrow> False | Some x \<Rightarrow> includesStr x v))"
| "matches (InputName n) e = (tag e = ''input'' \<and> el_name e = n)"
| "matches (InputTypeMaxlength t n) e = (tag e = ''input'' \<and> el_type e = t \<and> maxLength e = n)"

definition querySelector :: "page \<Rightarrow> selector \<Rightarrow> element option" where
  "querySelector p sel = List.find (matches sel) (elements p)"

text \<open>\<open>!!document.querySelector(sel)\<close>\<close>

definition exists :: "page \<Rightarrow> selector \<Rightarrow> bool" where
  "exists p sel = (querySelector p sel \<noteq> None)"

subsection \<open>detectLoginPage\<close>


subsection \<open>detect2FAPage\<close>

definition has2FAText :: "page \<Rightarrow> bool" where
  "has2FAText p =
     (let pageText = toLowerCase (textContent p)
      in includesStr pageText ''verification code'' \<or>
         includesStr pageText ''authentication code'' \<or>
         includesStr pageText ''enter code'' \<or>
         includesStr pageText ''two-factor'' \<or>
         includesStr pageText ''2fa'' \<or>
         includesStr pageText ''otp'' \<or>
         includesStr pageText ''security code'')"

text \<open>The callback of \<open>inputs.some\<close>.\<close>

definition looksLike2FAInput :: "element \<Rightarrow> bool" where
  "looksLike2FAInput input =
     (let id = toLowerCase (el_id input);
          name = toLowerCase (el_name input);
          ph = toLowerCase (placeholder input);
          type = el_type input;
          maxLen = maxLength input;
          nameMatch = (includesStr id ''code'' \<or> includesStr id ''otp'' \<or> includesStr id ''token'' \<or>
                       includesStr name ''code'' \<or> includesStr name ''otp'' \<or>
                       includesStr name ''token'' \<or>
                       includesStr ph ''code'' \<or> includesStr ph ''verification'');
          lengthMatch = (maxLen \<ge> 4 \<and> maxLen \<le> 8);
          typeMatch = (type = ''text'' \<or> type = ''number'' \<or> type = ''tel'')
      in (nameMatch \<or> lengthMatch) \<and> typeMatch)"

definition inputsOf :: "page \<Rightarrow> element list" where
  "inputsOf p = filter (\<lambda>e. tag e = ''input'') (elements p)"

definition has2FAInput :: "page \<Rightarrow> bool" where
  "has2FAInput p = list_ex looksLike2FAInput (inputsOf p)"

definition detect2FAPage :: "page \<Rightarrow> bool" where
  "detect2FAPage p = (has2FAText p \<or> has2FAInput p)"

subsection \<open>find2FAInput\<close>

text \<open>
  The loop body of the generic detection: \<open>Some\<close> is the selector returned from inside the
  loop, \<open>None\<close> lets the loop go on.
\<close>

definition candidateSelector :: "element \<Rightarrow> selector option" where
  "candidateSelector input =
     (let id = toLowerCase (el_id input);
          name = toLowerCase (el_name input);
          ph = toLowerCase (placeholder input);
          type = el_type input;
          maxLen = maxLength input;
          strongMatch = (includesStr id ''code'' \<or> includesStr id ''otp'' \<or>
                         includesStr id ''passcode'' \<or>
                         includesStr name ''code'' \<or> includesStr name ''otp'' \<or>
                         includesStr ph ''code'');
          lengthMatch = (maxLen \<ge> 4 \<and> maxLen \<le> 8);
          typeMatch = (type = ''text'' \<or> type = ''number'' \<or> type = ''tel'')
      in if strongMatch \<and> typeMatch
         then Some (if el_id input \<noteq> [] then IdSel (el_id input) else InputName (el_name input))
         else if lengthMatch \<and> typeMatch \<and> el_type input \<noteq> ''password''
         then Some (if el_id input \<noteq> [] then IdSel (el_id input)
                    else InputTypeMaxlength type maxLen)
         else None)"

fun firstCandidate :: "element list \<Rightarrow> selector option" where
  "firstCandidate [] = None"
| "firstCandidate (input # rest) =
     (case candidateSelector input of Some sel \<Rightarrow> Some sel | None \<Rightarrow> firstCandidate rest)"

definition find2FAInput :: "page \<Rightarrow> selector option" where
  "find2FAInput p =
     (case List.find (exists p) [IdSel ''passcode'', InputName ''otp''] of
        Some sel \<Rightarrow> Some sel
      | None \<Rightarrow> firstCandidate (inputsOf p))"

subsection \<open>detectCaptchaOrBlocking\<close>

record blockingStatus =
  hasCaptcha :: bool
  hasRecaptcha :: bool
  hasHcaptcha :: bool
  hasCloudflare :: bool
  hasAccessDenied :: bool
  hasSessionExpired :: bool
  hasRateLimit :: bool

definition hasRecaptchaElement :: "page \<Rightarrow> bool" where
  "hasRecaptchaElement p =
     (exists p (ClassSel ''g-recaptcha'') \<or> exists p (HasAttr ''data-sitekey'') \<or>
      exists p (TagAttrHas ''iframe'' ''src'' ''recaptcha''))"

definition hasHcaptchaElement :: "page \<Rightarrow> bool" where
  "hasHcaptchaElement p =
     (exists p (ClassSel ''h-captcha'') \<or> exists p (TagAttrHas ''iframe'' ''src'' ''hcaptcha''))"

definition hasCaptchaIframe :: "page \<Rightarrow> bool" where
  "hasCaptchaIframe p = exists p (TagAttrHas ''iframe'' ''src'' ''captcha'')"

definition hasChallengeText :: "page \<Rightarrow> bool" where
  "hasChallengeText p =
     (let visibleText = toLowerCase (innerText p)
      in includesStr visibleText ''complete the captcha'' \<or>
         includesStr visibleText ''solve the captcha'' \<or>
         includesStr visibleText ''verify you are human'' \<or>
         includesStr visibleText ''verify you're human'' \<or>
         includesStr visibleText ''i am not a robot'')"

definition hasCaptchaChallenge :: "page \<Rightarrow> bool" where
  "hasCaptchaChallenge p =
     (hasChallengeText p \<and> (hasRecaptchaElement p \<or> hasHcaptchaElement p \<or> hasCaptchaIframe p))"

definition detectCaptchaOrBlocking :: "page \<Rightarrow> blockingStatus" where
  "detectCaptchaOrBlocking p =
     (let text = toLowerCase (textContent p)
      in \<lparr>hasCaptcha = hasCaptchaChallenge p,
          hasRecaptcha = hasRecaptchaElement p,
          hasHcaptcha = hasHcaptchaElement p,
          hasCloudflare =
            ((includesStr text ''cloudflare'' \<and> includesStr text ''checking your browser'') \<or>
             (includesStr text ''challenge'' \<and> includesStr text ''ray id'')),
          hasAccessDenied =
            (includesStr text ''access denied'' \<or> includesStr text ''403 forbidden'' \<or>
             includesStr text ''not authorized''),
          hasSessionExpired =
            (includesStr text ''session expired'' \<or> includesStr text ''please log in'' \<or>
             includesStr text ''login required''),
          hasRateLimit =
            (includesStr text ''too many requests'' \<or> includesStr text ''rate limit'')\<rparr>)"

section \<open>Errors, effects and results\<close>

text \<open>
  Every \<open>throw new Error(...)\<close> of the source is a constructor, named after its message
  (\<open>ToolNotOpened\<close>, \<open>LoginRequiredNoCredentials\<close> and \<open>CaptchaOnTool\<close> are the
  ones of step 3); \<open>Thrown\<close> is an exception raised by the platform (a time-out of the
  browser, a network error, a \<open>TypeError\<close>), with its message.
\<close>

datatype error =
    WebhookUrlRequired
  | CookiesOrCredentialsRequired
  | NoCookiesAnywhere
  | SessionExpiredNoCredentials
  | CaptchaDetected
  | StillOnAuthPage
  | NoCookiesNoCredentials
  | SignInButtonNotFound
  | TwoFAInputNotFound
  | TwoFAWebhookFailed nat string
  | TwoFANoCode
  | TwoFATimeout
  | TwoFASubmitNotFound
  | ToolNotOpened
  | LoginRequiredNoCredentials
  | CaptchaOnTool
  | MissingRequiredCookies "string list"
  | WebhookFailed nat
  | Thrown string

text \<open>The outcome of a \<open>fetch\<close>: aborted by its timer, failed, or answered (status, body).\<close>

datatype fetch_result =
    FetchAborted
  | FetchFailed string
  | FetchResponse nat string

definition ok :: "nat \<Rightarrow> bool" where
  "ok status = (200 \<le> status \<and> status \<le> 299)"

datatype expiry = ExpNumber real | ExpText string

record cookieDetail =
  found :: bool
  detailDomain :: "string option"
  detailExpires :: expiry

text \<open>The body of a POST to the cookie webhook; \<open>None\<close> is a property that is not sent.\<close>

record envelope =
  success :: bool
  partial :: "bool option"
  missingCookies :: "string list option"
  timestamp :: string
  cookies :: "cookie list option"
  cookieDetails :: "(string \<times> cookieDetail) list option"
  error :: "error option"

text \<open>
  What a run does to the world outside, in order: reads and writes of the key-value
  store (by key), the launch and the closing of the browser, cookies put into it, the
  navigations of the main sequence, the browsing of steps 2 to 5.5 (as one event), and the
  requests to the two webhooks. An event is the attempt: a write or a request is recorded
  also when it fails. Reading the state of a page is not recorded.
\<close>

datatype event =
    StoreRead string
  | StoreWrite string
  | BrowserLaunch
  | AddCookies "cookie list"
  | Navigate string
  | WarmUpBrowsing
  | TwoFactorPost "string option" string
  | WebhookPost string envelope
  | BrowserClose

type_synonym 'a outcome = "event list \<times> (error + 'a)"

definition andThen :: "'a outcome \<Rightarrow> ('a \<Rightarrow> 'b outcome) \<Rightarrow> 'b outcome" where
  "andThen m f =
     (case m of
        (evs, Inl e) \<Rightarrow> (evs, Inl e)
      | (evs, Inr x) \<Rightarrow> (case f x of (evs', r) \<Rightarrow> (evs @ evs', r)))"

section \<open>The two-factor webhook response\<close>

text \<open>
  A value decoded by \<open>JSON.parse\<close>. A number is represented by the text that \<open>String\<close>
  gives for it, an object by its properties with their values. \<open>JSON.parse\<close> itself is
  the platform's: the functions below take it as an argument, \<open>None\<close> for a text it
  rejects with a \<open>SyntaxError\<close>.
\<close>

datatype json =
    JNull
  | JBool bool
  | JNumber string
  | JString string
  | JArray "json list"
  | JObject "(string \<times> json) list"

fun truthy :: "json \<Rightarrow> bool" where
  "truthy JNull = False"
| "truthy (JBool b) = b"
| "truthy (JNumber n) = (n \<noteq> ''0'')"
| "truthy (JString s) = (s \<noteq> [])"
| "truthy (JArray xs) = True"
| "truthy (JObject kvs) = True"

text \<open>\<open>a || b\<close>, with \<open>None\<close> for \<open>undefined\<close> and \<open>null\<close>.\<close>

definition jsOr :: "json option \<Rightarrow> json option \<Rightarrow> json option" where
  "jsOr a b = (case a of None \<Rightarrow> b | Some v \<Rightarrow> if truthy v then a else b)"

text \<open>
  The value of \<open>twoFACode\<close> after the inner \<open>try\<close>/\<open>catch\<close>. \<open>typeof null\<close> is
  \<open>'object'\<close>, and reading a property of \<open>null\<close> throws inside the \<open>try\<close>, so that
  the \<open>catch\<close> takes the text as it is; a boolean matches neither test and leaves
  \<open>twoFACode\<close> at \<open>null\<close>; an array has none of the four properties.
\<close>

definition parseTwoFACode :: "(string \<Rightarrow> json option) \<Rightarrow> string \<Rightarrow> json option" where
  "parseTwoFACode JSON_parse responseText =
     (case JSON_parse responseText of
        None \<Rightarrow> Some (JString (trim responseText))
      | Some jsonResponse \<Rightarrow>
          (case jsonResponse of
             JNumber n \<Rightarrow> Some (JString (trim n))
           | JString s \<Rightarrow> Some (JString (trim s))
           | JBool b \<Rightarrow> None
           | JNull \<Rightarrow> Some (JString (trim responseText))
           | JArray xs \<Rightarrow> None
           | JObject kvs \<Rightarrow>
               jsOr (jsOr (jsOr (map_of kvs ''code'') (map_of kvs ''2fa_code''))
                          (map_of kvs ''otp''))
                    (map_of kvs ''token'')))"

text \<open>The outer \<open>try\<close>/\<open>catch\<close> around the request: the code, or the error thrown.\<close>

definition requestTwoFACode :: "(string \<Rightarrow> json option) \<Rightarrow> fetch_result \<Rightarrow> error + json" where
  "requestTwoFACode JSON_parse twoFAResponse =
     (case twoFAResponse of
        FetchAborted \<Rightarrow> Inl TwoFATimeout
      | FetchFailed msg \<Rightarrow> Inl (Thrown msg)
      | FetchResponse status responseText \<Rightarrow>
          if \<not> ok status then Inl (TwoFAWebhookFailed status responseText)
          else (case parseTwoFACode JSON_parse responseText of
                  None \<Rightarrow> Inl TwoFANoCode
                | Some twoFACode \<Rightarrow> if truthy twoFACode then Inr twoFACode else Inl TwoFANoCode))"

section \<open>The login flow\<close>

record credentials =
  username :: string
  password :: string

text \<open>
  What the browser and the two-factor webhook answer during \<open>handleLoginFlow\<close>: whether
  the login form appears in time (\<open>Some\<close> is the time-out thrown), whether one of the
  submit selectors finds a button, the document seen after the settle delay, the answer of
  the webhook, whether a button is found on the two-factor page and becomes visible in time.
  \<open>page.fill\<close> takes a string: handed a code that is not one (a number, an object, as
  the value of a key of a JSON object can be) it throws. The other calls that fill fields
  and click are taken to return.
\<close>

text \<open>\<open>typeof v\<close>\<close>

fun typeofJson :: "json \<Rightarrow> string" where
  "typeofJson JNull = ''object''"
| "typeofJson (JBool b) = ''boolean''"
| "typeofJson (JNumber n) = ''number''"
| "typeofJson (JString s) = ''string''"
| "typeofJson (JArray xs) = ''object''"
| "typeofJson (JObject kvs) = ''object''"

record loginEnv =
  le_formWait :: "string option"
  le_submitFound :: bool
  le_pageAfterSubmit :: page
  le_twoFAResponse :: fetch_result
  le_twoFASubmitFound :: bool
  le_twoFASubmitWait :: "string option"

definition handleLoginFlow ::
  "(string \<Rightarrow> json option) \<Rightarrow> loginEnv \<Rightarrow> credentials \<Rightarrow> string option \<Rightarrow> unit outcome" where
  "handleLoginFlow JSON_parse le creds twoFactorWebhookUrl =
     (case le_formWait le of
        Some msg \<Rightarrow> ([], Inl (Thrown msg))
      | None \<Rightarrow>
          if \<not> le_submitFound le then ([], Inl SignInButtonNotFound)
          else if detect2FAPage (le_pageAfterSubmit le) then
            (case find2FAInput (le_pageAfterSubmit le) of
               None \<Rightarrow> ([StoreWrite ''2fa-input-not-found-screenshot''], Inl TwoFAInputNotFound)
             | Some twoFAInput \<Rightarrow>
                 (case requestTwoFACode JSON_parse (le_twoFAResponse le) of
                    Inl e \<Rightarrow> ([TwoFactorPost twoFactorWebhookUrl (username creds)], Inl e)
                  | Inr twoFACode \<Rightarrow>
                      ([TwoFactorPost twoFactorWebhookUrl (username creds)],
                       if typeofJson twoFACode \<noteq> ''string''
                       then Inl (Thrown (''page.fill: value: expected string, got '' @
                                         typeofJson twoFACode))
                       else if \<not> le_twoFASubmitFound le then Inl TwoFASubmitNotFound
                       else (case le_twoFASubmitWait le of
                               Some msg \<Rightarrow> Inl (Thrown msg)
                             | None \<Rightarrow> Inr ()))))
          else ([], Inr ()))"

section \<open>The run: input and pre-flight validation\<close>

text \<open>
  A property of the input object is omitted (\<open>Undefined\<close>), \<open>null\<close>, or has a value. The
  destructuring assignment gives an omitted property its default and leaves \<open>null\<close> as it
  is. The proxy settings only select the proxy of the browser and are left out.
\<close>

datatype 'a jsprop = Undefined | Null | Val 'a

record actorInput =
  in_manheimCookies :: "cookie list jsprop"
  in_credentials :: "credentials jsprop"
  in_twoFactorWebhookUrl :: "string jsprop"
  in_cookieWebhookUrl :: "string jsprop"

definition withDefault :: "'a option \<Rightarrow> 'a jsprop \<Rightarrow> 'a option" where
  "withDefault d v = (case v of Undefined \<Rightarrow> d | Null \<Rightarrow> None | Val x \<Rightarrow> Some x)"

definition defaultTwoFactorWebhookUrl :: string where
  "defaultTwoFactorWebhookUrl = ''https://n8nsaved-production.up.railway.app/webhook/mmr2facode''"

definition defaultCookieWebhookUrl :: string where
  "defaultCookieWebhookUrl = ''https://n8nsaved-production.up.railway.app/webhook/mmrcookies''"

text \<open>The configuration of a run that has passed validation (\<open>None\<close> is \<open>null\<close>).\<close>

record config =
  manheimCookies :: "cookie list option"
  credentials :: "credentials option"
  twoFactorWebhookUrl :: "string option"
  cookieWebhookUrl :: string

definition nonEmptyCookies :: "cookie list option \<Rightarrow> bool" where
  "nonEmptyCookies cs = (case cs of None \<Rightarrow> False | Some xs \<Rightarrow> xs \<noteq> [])"

text \<open>
  Lines 724 to 750: \<open>Actor.getInput()\<close> gives \<open>null\<close> when the run has no input, and
  destructuring \<open>null\<close> throws a \<open>TypeError\<close>; then the two validations.
\<close>

definition preflight :: "actorInput option \<Rightarrow> error + config" where
  "preflight input =
     (case input of
        None \<Rightarrow> Inl (Thrown ''Cannot destructure property 'manheimCookies' of 'input' as it is null.'')
      | Some i \<Rightarrow>
          (let cookiesIn = withDefault (Some []) (in_manheimCookies i);
               creds = withDefault None (in_credentials i);
               twoFactorUrl = withDefault (Some defaultTwoFactorWebhookUrl) (in_twoFactorWebhookUrl i);
               cookieUrl = withDefault (Some defaultCookieWebhookUrl) (in_cookieWebhookUrl i)
           in case cookieUrl of
                None \<Rightarrow> Inl WebhookUrlRequired
              | Some url \<Rightarrow>
                  if url = [] then Inl WebhookUrlRequired
                  else if \<not> nonEmptyCookies cookiesIn \<and> creds = None
                  then Inl CookiesOrCredentialsRequired
                  else Inr \<lparr>manheimCookies = cookiesIn, credentials = creds,
                            twoFactorWebhookUrl = twoFactorUrl, cookieWebhookUrl = url\<rparr>))"

section \<open>The run: the world it meets\<close>

text \<open>
  The answers of the browser, the key-value store, the clock and the webhooks during one
  run, in the order the run asks for them. A \<open>string option\<close> is a call that may throw
  (\<open>Some\<close> the message). Steps 2 to 5.5 (the visits that make the site issue its cookies,
  the simulated activity, the bounded hard refreshes) only browse: what follows depends on
  them through the exception they may raise (\<open>e_warmUp\<close>) and through the cookies the
  browser holds afterwards (\<open>e_allCookies\<close>).
\<close>

record env =
  e_JSON_parse :: "string \<Rightarrow> json option"  \<comment> \<open>\<open>JSON.parse\<close>\<close>
  e_fingerprintSaved :: bool  \<comment> \<open>the store has a fingerprint\<close>
  e_now :: real  \<comment> \<open>\<open>Date.now() / 1000\<close> when the snapshot is restored\<close>
  e_existingCookies :: "cookie list"  \<comment> \<open>the cookies of the restored profile\<close>
  e_savedCookies :: kv_read  \<comment> \<open>the stored cookie snapshot\<close>
  e_landedHostname :: string  \<comment> \<open>where the first navigation of step 1 lands\<close>
  e_login :: loginEnv  \<comment> \<open>the answers during the login flow\<close>
  e_postLoginHostname :: string  \<comment> \<open>the host after waiting for the redirect\<close>
  e_unexpectedPage :: page  \<comment> \<open>the document on a host that is neither of the two\<close>
  e_warmUp :: "error option"  \<comment> \<open>the error raised by steps 2 to 5.5, if any\<close>
  e_allCookies :: "cookie list"  \<comment> \<open>\<open>context.cookies()\<close> at step 6\<close>
  e_debugWrite :: "string option"  \<comment> \<open>the write of \<open>all-cookies-debug\<close> (one per run at most)\<close>
  e_recoveryGoto :: "string option"  \<comment> \<open>the fallback navigation\<close>
  e_retryCookies :: "nat \<Rightarrow> cookie list"  \<comment> \<open>\<open>context.cookies()\<close> at each poll\<close>
  e_timestamp :: string  \<comment> \<open>the time of the success envelope\<close>
  e_delivery :: fetch_result  \<comment> \<open>the POST of the success envelope\<close>
  e_backupWrite :: "string option"  \<comment> \<open>the write of \<open>fresh-cookies\<close>\<close>
  e_failureTimestamp :: string  \<comment> \<open>the time of the failure envelope\<close>
  e_notification :: fetch_result  \<comment> \<open>the POST of the failure envelope\<close>

section \<open>The run: launch and the choice of cookies\<close>

text \<open>
  Lines 797 to 869, outside the \<open>try\<close>: the fingerprint, the profile, the launch, and the
  cookies put into the browser (input, else the saved snapshot, else the profile's own).
  The result is \<open>hasCookiesInjected\<close>.
\<close>

definition hasExistingCookies :: "cookie list \<Rightarrow> bool" where
  "hasExistingCookies existing = list_ex (\<lambda>c. cname c = ''_cl'' \<or> cname c = ''SESSION'') existing"

definition launch :: "env \<Rightarrow> event list" where
  "launch w =
     [StoreRead ''browser-fingerprint''] @
     (if e_fingerprintSaved w then [] else [StoreWrite ''browser-fingerprint'']) @
     [StoreRead ''browser-profile'', BrowserLaunch]"

definition injectCookies :: "config \<Rightarrow> env \<Rightarrow> bool outcome" where
  "injectCookies cfg w =
     (if nonEmptyCookies (manheimCookies cfg)
      then ([AddCookies (case manheimCookies cfg of Some xs \<Rightarrow> xs | None \<Rightarrow> [])], Inr True)
      else
        (let savedCookies = restoreSavedCookies (e_now w) (e_savedCookies w)
         in if nonEmptyCookies savedCookies
            then ([StoreRead ''saved-cookies'',
                   AddCookies (case savedCookies of Some xs \<Rightarrow> xs | None \<Rightarrow> [])], Inr True)
            else if \<not> hasExistingCookies (e_existingCookies w) \<and> credentials cfg = None
            then ([StoreRead ''saved-cookies''], Inl NoCookiesAnywhere)
            else if \<not> hasExistingCookies (e_existingCookies w)
            then ([StoreRead ''saved-cookies''], Inr False)
            else ([StoreRead ''saved-cookies''], Inr True)))"

section \<open>The run: step 1, authentication\<close>

definition hasCredentials :: "config \<Rightarrow> bool" where
  "hasCredentials cfg =
     (case credentials cfg of None \<Rightarrow> False | Some c \<Rightarrow> username c \<noteq> [] \<and> password c \<noteq> [])"

definition credentialsOf :: "config \<Rightarrow> credentials" where
  "credentialsOf cfg =
     (case credentials cfg of Some c \<Rightarrow> c | None \<Rightarrow> \<lparr>username = [], password = []\<rparr>)"

text \<open>Lines 879 to 937: the browser holds cookies; they are tested on the protected page.\<close>

definition cookiesPath :: "config \<Rightarrow> env \<Rightarrow> unit outcome" where
  "cookiesPath cfg w =
     andThen ([Navigate ''https://mmr.manheim.com/''], Inr ()) (\<lambda>_.
       let testHostname = e_landedHostname w
       in if testHostname = ''mmr.manheim.com'' then ([], Inr ())
          else if testHostname = ''auth.manheim.com'' then
            (if \<not> hasCredentials cfg
             then ([StoreWrite ''login-required-screenshot''], Inl SessionExpiredNoCredentials)
             else handleLoginFlow (e_JSON_parse w) (e_login w) (credentialsOf cfg)
                    (twoFactorWebhookUrl cfg))
          else
            (let blocking = detectCaptchaOrBlocking (e_unexpectedPage w)
             in if hasCaptcha blocking \<or> hasRecaptcha blocking \<or> hasCloudflare blocking
                then ([StoreWrite ''captcha-detected-screenshot''], Inl CaptchaDetected)
                else ([], Inr ())))"

text \<open>Lines 938 to 974: no cookies, credentials only.\<close>

definition credentialsPath :: "config \<Rightarrow> env \<Rightarrow> unit outcome" where
  "credentialsPath cfg w =
     andThen ([Navigate ''https://mmr.manheim.com/''], Inr ()) (\<lambda>_.
       let landedHostname = e_landedHostname w
       in if landedHostname = ''auth.manheim.com'' then
            andThen (handleLoginFlow (e_JSON_parse w) (e_login w) (credentialsOf cfg)
                       (twoFactorWebhookUrl cfg)) (\<lambda>_.
              let postLoginHostname = e_postLoginHostname w
              in if postLoginHostname = ''auth.manheim.com''
                 then ([StoreWrite ''login-failed-screenshot''], Inl StillOnAuthPage)
                 else ([], Inr ()))
          else ([], Inr ()))"

definition authenticate :: "config \<Rightarrow> env \<Rightarrow> bool \<Rightarrow> unit outcome" where
  "authenticate cfg w hasCookiesInjected =
     (if hasCookiesInjected then cookiesPath cfg w
      else if hasCredentials cfg then credentialsPath cfg w
      else ([], Inl NoCookiesNoCredentials))"

text \<open>Steps 2 to 5.5, by their outcome.\<close>

definition warmUp :: "env \<Rightarrow> unit outcome" where
  "warmUp w = ([WarmUpBrowsing], case e_warmUp w of Some e \<Rightarrow> Inl e | None \<Rightarrow> Inr ())"

section \<open>The run: step 6, extraction of the essential cookies\<close>

text \<open>
  \<open>essentialCookies\<close> is an object with the four names as its own properties, each
  \<open>null\<close> at first: a map from names to cookies, \<open>None\<close> for \<open>null\<close>, with
  \<open>hasOwnProperty\<close> as membership in \<open>essentialNames\<close>.
\<close>

definition essentialNames :: "string list" where
  "essentialNames = [''_cl'', ''SESSION'', ''session'', ''session.sig'']"

definition requiredNames :: "string list" where
  "requiredNames = [''_cl'', ''SESSION'']"

definition optionalNames :: "string list" where
  "optionalNames = [''session'', ''session.sig'']"

text \<open>The callback of \<open>allCookies.forEach\<close> (lines 1384 to 1392).\<close>

definition extractStep :: "(string \<rightharpoonup> cookie) \<Rightarrow> cookie \<Rightarrow> (string \<rightharpoonup> cookie)" where
  "extractStep essentialCookies c =
     (if cname c \<in> set essentialNames \<and> essentialCookies (cname c) = None
      then (if includesStr (cdomain c) ''manheim''
            then essentialCookies(cname c \<mapsto> c) else essentialCookies)
      else essentialCookies)"

definition extractEssential :: "cookie list \<Rightarrow> (string \<rightharpoonup> cookie)" where
  "extractEssential allCookies = foldl extractStep Map.empty allCookies"

definition missingOf :: "(string \<rightharpoonup> cookie) \<Rightarrow> string list \<Rightarrow> string list" where
  "missingOf essentialCookies names = filter (\<lambda>n. essentialCookies n = None) names"

text \<open>
  The callback of \<open>retryCookies.forEach\<close> (lines 1464 to 1473), on the pair of
  \<open>essentialCookies\<close> and \<open>missingOptional\<close>; \<open>indexOf\<close> and \<open>splice\<close> remove the first
  occurrence of the name.
\<close>

definition retryStep ::
  "(string \<rightharpoonup> cookie) \<times> string list \<Rightarrow> cookie \<Rightarrow> (string \<rightharpoonup> cookie) \<times> string list" where
  "retryStep st c =
     (case st of (essentialCookies, missingOptional) \<Rightarrow>
        if (cname c = ''session'' \<or> cname c = ''session.sig'') \<and>
           includesStr (cdomain c) ''manheim'' \<and> essentialCookies (cname c) = None
        then (essentialCookies(cname c \<mapsto> c), remove1 (cname c) missingOptional)
        else (essentialCookies, missingOptional))"

text \<open>The loop \<open>for (let retry = 0; retry < 3 && missingOptional.length > 0; retry++)\<close>.\<close>

function pollLoop ::
  "(nat \<Rightarrow> cookie list) \<Rightarrow> nat \<Rightarrow> (string \<rightharpoonup> cookie) \<times> string list \<Rightarrow>
   (string \<rightharpoonup> cookie) \<times> string list" where
  "pollLoop retryCookies retry st =
     (if retry < 3 \<and> snd st \<noteq> []
      then pollLoop retryCookies (retry + 1) (foldl retryStep st (retryCookies retry))
      else st)"
  by pat_completeness auto
termination
  by (relation "measure (\<lambda>(retryCookies, retry, st). 3 - retry)") auto

declare pollLoop.simps [simp del]

text \<open>
  Lines 1424 to 1477: the fallback navigation and the polls, inside their own
  \<open>try\<close>/\<open>catch\<close>: when the navigation throws, nothing has changed. The reads of the
  browser's cookies are taken to return.
\<close>

definition recoveryPass ::
  "env \<Rightarrow> (string \<rightharpoonup> cookie) \<times> string list \<Rightarrow>
   event list \<times> (string \<rightharpoonup> cookie) \<times> string list" where
  "recoveryPass w st =
     (if snd st \<noteq> [] then
        (case e_recoveryGoto w of
           Some msg \<Rightarrow> ([Navigate ''https://www.manheim.com/''], st)
         | None \<Rightarrow> ([Navigate ''https://www.manheim.com/''], pollLoop (e_retryCookies w) 0 st))
      else ([], st))"

section \<open>The run: steps 7 to 9, the envelope and its delivery\<close>

definition cookieArray :: "(string \<rightharpoonup> cookie) \<Rightarrow> cookie list" where
  "cookieArray essentialCookies =
     List.map_filter (\<lambda>x. x)
       [essentialCookies ''_cl'', essentialCookies ''SESSION'', essentialCookies ''session'',
        essentialCookies ''session.sig'']"

text \<open>\<open>c?.expires || 'session'\<close>\<close>

definition expiresOrSession :: "cookie option \<Rightarrow> expiry" where
  "expiresOrSession c =
     (case c of
        None \<Rightarrow> ExpText ''session''
      | Some x \<Rightarrow>
          (case expires x of
             None \<Rightarrow> ExpText ''session''
           | Some e \<Rightarrow> if e = 0 then ExpText ''session'' else ExpNumber e))"

text \<open>\<open>c?.domain\<close> and \<open>c?.domain || 'mcom-header-footer.manheim.com'\<close>\<close>

definition domainOf :: "cookie option \<Rightarrow> string option" where
  "domainOf c = map_option cdomain c"

definition domainOrDefault :: "cookie option \<Rightarrow> string option" where
  "domainOrDefault c =
     (case c of
        None \<Rightarrow> Some ''mcom-header-footer.manheim.com''
      | Some x \<Rightarrow>
          if cdomain x = [] then Some ''mcom-header-footer.manheim.com'' else Some (cdomain x))"

definition cookieDetailsOf :: "(string \<rightharpoonup> cookie) \<Rightarrow> (string \<times> cookieDetail) list" where
  "cookieDetailsOf essentialCookies =
     [(''_cl'', \<lparr>found = (essentialCookies ''_cl'' \<noteq> None),
                 detailDomain = domainOf (essentialCookies ''_cl''),
                 detailExpires = expiresOrSession (essentialCookies ''_cl'')\<rparr>),
      (''SESSION'', \<lparr>found = (essentialCookies ''SESSION'' \<noteq> None),
                 detailDomain = domainOf (essentialCookies ''SESSION''),
                 detailExpires = expiresOrSession (essentialCookies ''SESSION'')\<rparr>),
      (''session'', \<lparr>found = (essentialCookies ''session'' \<noteq> None),
                 detailDomain = domainOrDefault (essentialCookies ''session''),
                 detailExpires = expiresOrSession (essentialCookies ''session'')\<rparr>),
      (''session.sig'', \<lparr>found = (essentialCookies ''session.sig'' \<noteq> None),
                 detailDomain = domainOrDefault (essentialCookies ''session.sig''),
                 detailExpires = expiresOrSession (essentialCookies ''session.sig'')\<rparr>)]"

definition webhookPayload ::
  "string \<Rightarrow> bool \<Rightarrow> string list \<Rightarrow> (string \<rightharpoonup> cookie) \<Rightarrow> envelope" where
  "webhookPayload ts isPartial missingOptional essentialCookies =
     \<lparr>success = True,
      partial = Some isPartial,
      missingCookies = (if isPartial then Some missingOptional else None),
      timestamp = ts,
      cookies = Some (cookieArray essentialCookies),
      cookieDetails = Some (cookieDetailsOf essentialCookies),
      error = None\<rparr>"

definition failurePayload :: "string \<Rightarrow> error \<Rightarrow> envelope" where
  "failurePayload ts e =
     \<lparr>success = False, partial = None, missingCookies = None, timestamp = ts,
      cookies = None, cookieDetails = None, error = Some e\<rparr>"

text \<open>
  Lines 1548 to 1569: the POST, the test of the answer, the backup. This request has no
  abort timer; an abort is treated as any other failure of the request.
\<close>

definition deliver :: "config \<Rightarrow> env \<Rightarrow> envelope \<Rightarrow> unit outcome" where
  "deliver cfg w payload =
     (case e_delivery w of
        FetchAborted \<Rightarrow> ([WebhookPost (cookieWebhookUrl cfg) payload], Inl (Thrown ''AbortError''))
      | FetchFailed msg \<Rightarrow> ([WebhookPost (cookieWebhookUrl cfg) payload], Inl (Thrown msg))
      | FetchResponse status body \<Rightarrow>
          if ok status then
            (case e_backupWrite w of
               Some msg \<Rightarrow>
                 ([WebhookPost (cookieWebhookUrl cfg) payload, StoreWrite ''fresh-cookies''],
                  Inl (Thrown msg))
             | None \<Rightarrow>
                 ([WebhookPost (cookieWebhookUrl cfg) payload, StoreWrite ''fresh-cookies''],
                  Inr ()))
          else ([WebhookPost (cookieWebhookUrl cfg) payload], Inl (WebhookFailed status)))"

text \<open>Lines 1364 to 1569.\<close>

definition extractAndDeliver :: "config \<Rightarrow> env \<Rightarrow> unit outcome" where
  "extractAndDeliver cfg w =
     (let essentialCookies = extractEssential (e_allCookies w);
          missingRequired = missingOf essentialCookies requiredNames;
          missingOptional = missingOf essentialCookies optionalNames
      in if missingRequired \<noteq> [] then
           ([StoreWrite ''all-cookies-debug''],
            case e_debugWrite w of
              Some msg \<Rightarrow> Inl (Thrown msg)
            | None \<Rightarrow> Inl (MissingRequiredCookies missingRequired))
         else
           (case recoveryPass w (essentialCookies, missingOptional) of
              (evs, essentialCookies', missingOptional') \<Rightarrow>
                let isPartial = (missingOptional' \<noteq> []);
                    payload = webhookPayload (e_timestamp w) isPartial missingOptional'
                                essentialCookies'
                in andThen
                     (evs @ (if isPartial then [StoreWrite ''all-cookies-debug''] else []),
                      if isPartial then
                        (case e_debugWrite w of Some msg \<Rightarrow> Inl (Thrown msg) | None \<Rightarrow> Inr ())
                      else Inr ())
                     (\<lambda>_. andThen ([StoreWrite ''saved-cookies''], Inr ())
                        (\<lambda>_. deliver cfg w payload))))"

section \<open>The run\<close>

text \<open>The body of the \<open>try\<close> (lines 874 to 1581).\<close>

definition tryBlock :: "config \<Rightarrow> env \<Rightarrow> bool \<Rightarrow> unit outcome" where
  "tryBlock cfg w hasCookiesInjected =
     andThen (authenticate cfg w hasCookiesInjected) (\<lambda>_.
       andThen (warmUp w) (\<lambda>_. extractAndDeliver cfg w))"

text \<open>
  The \<open>catch\<close> (lines 1583 to 1606): the notification is attempted, its own failure is
  caught and logged, and the error caught is thrown again; then the \<open>finally\<close>: the
  browser is closed and the profile saved.
\<close>

definition notifyFailure :: "config \<Rightarrow> env \<Rightarrow> error \<Rightarrow> event list" where
  "notifyFailure cfg w e =
     (case e_notification w of
        FetchAborted \<Rightarrow> [WebhookPost (cookieWebhookUrl cfg) (failurePayload (e_failureTimestamp w) e)]
      | FetchFailed msg \<Rightarrow> [WebhookPost (cookieWebhookUrl cfg) (failurePayload (e_failureTimestamp w) e)]
      | FetchResponse status body \<Rightarrow>
          [WebhookPost (cookieWebhookUrl cfg) (failurePayload (e_failureTimestamp w) e)])"

definition guarded :: "config \<Rightarrow> env \<Rightarrow> bool \<Rightarrow> unit outcome" where
  "guarded cfg w hasCookiesInjected =
     (case tryBlock cfg w hasCookiesInjected of
        (evs, Inl e) \<Rightarrow>
          (evs @ notifyFailure cfg w e @ [BrowserClose, StoreWrite ''browser-profile''], Inl e)
      | (evs, Inr u) \<Rightarrow> (evs @ [BrowserClose, StoreWrite ''browser-profile''], Inr u))"

text \<open>\<open>Actor.main\<close>: the trace of the run and its result, \<open>Inl\<close> the error it raises.\<close>

definition Actor_main :: "actorInput option \<Rightarrow> env \<Rightarrow> unit outcome" where
  "Actor_main input w =
     (case preflight input of
        Inl e \<Rightarrow> ([], Inl e)
      | Inr cfg \<Rightarrow>
          andThen (launch w, Inr ()) (\<lambda>_.
            andThen (injectCookies cfg w) (\<lambda>hasCookiesInjected.
              guarded cfg w hasCookiesInjected)))"

text \<open>The envelopes with \<open>success: true\<close> among the requests of a trace.\<close>

fun isSuccessPost :: "event \<Rightarrow> bool" where
  "isSuccessPost (WebhookPost url payload) = success payload"
| "isSuccessPost _ = False"

fun postsOf :: "event list \<Rightarrow> (string \<times> envelope) list" where
  "postsOf [] = []"
| "postsOf (WebhookPost url payload # evs) = (url, payload) # postsOf evs"
| "postsOf (_ # evs) = postsOf evs"

section \<open>Fixtures\<close>

text \<open>Concrete cookies, documents and worlds on which the properties below are run.\<close>

definition mkCookie :: "string \<Rightarrow> string \<Rightarrow> string \<Rightarrow> real option \<Rightarrow> cookie" where
  "mkCookie n v d e =
     \<lparr>cname = n, cvalue = v, cdomain = d, cpath = ''/'', httpOnly = True, secure = True,
      sameSite = ''None'', expires = e\<rparr>"

definition mkInput :: "string \<Rightarrow> string \<Rightarrow> string \<Rightarrow> string \<Rightarrow> int \<Rightarrow> element" where
  "mkInput i n ph t ml =
     \<lparr>tag = ''input'', el_id = i, classes = [], el_name = n, placeholder = ph, el_type = t,
      maxLength = ml, attrs = []\<rparr>"

definition textOnlyPage :: "string \<Rightarrow> page" where
  "textOnlyPage t = \<lparr>textContent = t, innerText = t, elements = []\<rparr>"

definition inputOnlyPage :: "element \<Rightarrow> page" where
  "inputOnlyPage i = \<lparr>textContent = ''Welcome back'', innerText = ''Welcome back'', elements = [i]\<rparr>"

definition loginPage :: page where
  "loginPage =
     \<lparr>textContent = ''Sign In Username Password Remember my username'',
      innerText = ''Sign In Username Password Remember my username'',
      elements = [mkInput ''username'' ''pf.username'' [] ''text'' (- 1),
                  mkInput ''password'' ''pf.pass'' [] ''password'' (- 1)]\<rparr>"

text \<open>
  A decoder for the examples: it agrees with \<open>JSON.parse\<close> on the five bodies of its
  table and on the body \<open>  A1B2C3 \<close>, which is no JSON and which \<open>JSON.parse\<close> rejects. It
  is used at these bodies only.
\<close>

definition sampleDecode :: "string \<Rightarrow> json option" where
  \<open>sampleDecode s =
     (if s = ''{"code":"123456"}'' then Some (JObject [(''code'', JString ''123456'')])
      else if s = ''"654321"'' then Some (JString ''654321'')
      else if s = ''789012'' then Some (JNumber ''789012'')
      else if s = ''123456'' then Some (JNumber ''123456'')
      else if s = ''{"otp":"000111"}'' then Some (JObject [(''otp'', JString ''000111'')])
      else None)\<close>

definition quietLogin :: loginEnv where
  "quietLogin =
     \<lparr>le_formWait = None, le_submitFound = True, le_pageAfterSubmit = textOnlyPage ''Loading'',
      le_twoFAResponse = FetchResponse 200 ''123456'', le_twoFASubmitFound = True,
      le_twoFASubmitWait = None\<rparr>"

definition fourCookies :: "cookie list" where
  "fourCookies =
     [mkCookie ''_cl'' ''a'' ''.manheim.com'' (Some 1800000000),
      mkCookie ''SESSION'' ''b'' ''.manheim.com'' (Some (- 1)),
      mkCookie ''session'' ''c'' ''mcom-header-footer.manheim.com'' (Some 1800000000),
      mkCookie ''session.sig'' ''d'' ''mcom-header-footer.manheim.com'' (Some 1800000000)]"

text \<open>
  A world in which nothing goes wrong: the cookies are valid, the browser ends with the
  four essential cookies, the webhook answers 200.
\<close>

definition quietEnv :: env where
  "quietEnv =
     \<lparr>e_JSON_parse = sampleDecode, e_fingerprintSaved = True, e_now = 1700000000,
      e_existingCookies = [], e_savedCookies = KvNothing,
      e_landedHostname = ''mmr.manheim.com'', e_login = quietLogin,
      e_postLoginHostname = ''mmr.manheim.com'', e_unexpectedPage = textOnlyPage [],
      e_warmUp = None, e_allCookies = fourCookies, e_debugWrite = None,
      e_recoveryGoto = None, e_retryCookies = (\<lambda>n. []),
      e_timestamp = ''2025-01-28T10:30:00.000Z'',
      e_delivery = FetchResponse 200 ''ok'', e_backupWrite = None,
      e_failureTimestamp = ''2025-01-28T10:31:00.000Z'',
      e_notification = FetchResponse 200 ''ok''\<rparr>"

definition cookieInput :: actorInput where
  "cookieInput =
     \<lparr>in_manheimCookies = Val fourCookies, in_credentials = Undefined,
      in_twoFactorWebhookUrl = Undefined,
      in_cookieWebhookUrl = Val ''https://hooks.example/cookies''\<rparr>"

definition cookieConfig :: config where
  "cookieConfig =
     \<lparr>manheimCookies = Some fourCookies, credentials = None,
      twoFactorWebhookUrl = Some defaultTwoFactorWebhookUrl,
      cookieWebhookUrl = ''https://hooks.example/cookies''\<rparr>"

definition credentialsInput :: actorInput where
  "credentialsInput =
     \<lparr>in_manheimCookies = Undefined,
      in_credentials = Val \<lparr>username = ''dealer@example.com'', password = ''secret''\<rparr>,
      in_twoFactorWebhookUrl = Undefined, in_cookieWebhookUrl = Undefined\<rparr>"

definition credentialsConfig :: config where
  "credentialsConfig =
     \<lparr>manheimCookies = Some [],
      credentials = Some \<lparr>username = ''dealer@example.com'', password = ''secret''\<rparr>,
      twoFactorWebhookUrl = Some defaultTwoFactorWebhookUrl,
      cookieWebhookUrl = defaultCookieWebhookUrl\<rparr>"

definition emptyInput :: actorInput where
  "emptyInput =
     \<lparr>in_manheimCookies = Undefined, in_credentials = Undefined,
      in_twoFactorWebhookUrl = Undefined, in_cookieWebhookUrl = Undefined\<rparr>"

text \<open>The browser ends without \<open>_cl\<close>, and the failure notification cannot be sent.\<close>

definition missingClWorld :: env where
  "missingClWorld =
     quietEnv\<lparr>e_allCookies := tl fourCookies, e_notification := FetchFailed ''ECONNREFUSED''\<rparr>"

text \<open>
  The browser ends with the two required cookies only; the second poll of the recovery
  pass finds \<open>session\<close>, no poll finds \<open>session.sig\<close>.
\<close>

definition partialWorld :: env where
  "partialWorld =
     quietEnv\<lparr>e_allCookies := take 2 fourCookies,
              e_retryCookies := (\<lambda>k. if k = 1 then take 3 fourCookies else take 2 fourCookies)\<rparr>"

text \<open>
  The same, but the key-value store refuses the write of the debug record
  \<open>all-cookies-debug\<close>; the cookie webhook would answer 200.
\<close>

definition storeDownWorld :: env where
  "storeDownWorld = partialWorld\<lparr>e_debugWrite := Some ''Key-value store is unavailable''\<rparr>"

text \<open>The cookie webhook answers 500, and the failure notification cannot be sent.\<close>

definition rejectingWorld :: env where
  "rejectingWorld =
     quietEnv\<lparr>e_delivery := FetchResponse 500 ''Internal Server Error'',
              e_notification := FetchFailed ''ECONNREFUSED''\<rparr>"



section \<open>Notions used by the properties\<close>

text \<open>
  The browser's cookies hold an essential cookie: one of that name whose domain contains
  "manheim".
\<close>

definition holds :: "cookie list \<Rightarrow> string \<Rightarrow> bool" where
  "holds cs n = list_ex (\<lambda>c. cname c = n \<and> includesStr (cdomain c) ''manheim'') cs"

text \<open>
  An optional cookie remains absent after the bounded recovery pass: it is not held at
  extraction and, when the fallback navigation succeeds, by none of the three polls.
\<close>

definition stillMissing :: "env \<Rightarrow> string \<Rightarrow> bool" where
  "stillMissing w n =
     (\<not> holds (e_allCookies w) n \<and>
      (e_recoveryGoto w = None \<longrightarrow>
         list_all (\<lambda>k. \<not> holds (e_retryCookies w k) n) [0..<3]))"

text \<open>
  The cookie that the extraction keeps under an essential name: the first one of that name
  with a manheim domain among the browser's cookies at extraction; failing that, for an
  optional name and when the fallback navigation succeeds, the first such cookie of the
  first of the three polls that has one.
\<close>

definition firstHeld :: "cookie list \<Rightarrow> string \<Rightarrow> cookie option" where
  "firstHeld cs n = List.find (\<lambda>c. cname c = n \<and> includesStr (cdomain c) ''manheim'') cs"

function firstPolled :: "(nat \<Rightarrow> cookie list) \<Rightarrow> nat \<Rightarrow> string \<Rightarrow> cookie option" where
  "firstPolled rc r n =
     (if r < 3
      then (case firstHeld (rc r) n of
              Some c \<Rightarrow> Some c
            | None \<Rightarrow> firstPolled rc (r + 1) n)
      else None)"
  by pat_completeness auto
termination
  by (relation "measure (\<lambda>(rc, r, n). 3 - r)") auto

declare firstPolled.simps [simp del]

definition finalCookie :: "env \<Rightarrow> string \<Rightarrow> cookie option" where
  "finalCookie w n =
     (case firstHeld (e_allCookies w) n of
        Some c \<Rightarrow> Some c
      | None \<Rightarrow>
          if n \<in> set optionalNames \<and> e_recoveryGoto w = None
          then firstPolled (e_retryCookies w) 0 n
          else None)"

text \<open>
  Two invariants of the extraction: \<open>missingOptional\<close> lists the optional names that
  \<open>essentialCookies\<close> does not have, and a cookie stored under a name has that name and a
  domain that contains "manheim".
\<close>

definition consistent :: "(string \<rightharpoonup> cookie) \<times> string list \<Rightarrow> bool" where
  "consistent st = (snd st = filter (\<lambda>n. fst st n = None) optionalNames)"

definition wellNamed :: "(string \<rightharpoonup> cookie) \<Rightarrow> bool" where
  "wellNamed m = (\<forall>n c. m n = Some c \<longrightarrow> cname c = n \<and> includesStr (cdomain c) ''manheim'')"

section \<open>The claims as they are worded\<close>

text \<open>
  Probing an object for keys in order: the value of the first key that has a truthy one.
\<close>

fun probeKeys :: "(string \<times> json) list \<Rightarrow> string list \<Rightarrow> json option" where
  "probeKeys kvs [] = None"
| "probeKeys kvs (k # ks) =
     (case map_of kvs k of
        None \<Rightarrow> probeKeys kvs ks
      | Some v \<Rightarrow> if truthy v then Some v else probeKeys kvs ks)"

text \<open>
  The reading of C6 as it is worded: the six phrases, an input whose id, name or
  placeholder contains code, otp or token, or an input whose maxLength is in 4 to 8 with
  type text, number or tel.
\<close>

definition spec_isTwoFactorPage :: "page \<Rightarrow> bool" where
  "spec_isTwoFactorPage p =
     (list_ex (includesStr (toLowerCase (textContent p)))
        [''verification code'', ''authentication code'', ''two-factor'', ''otp'',
         ''security code'', ''enter code''] \<or>
      list_ex (\<lambda>i. list_ex (\<lambda>a. list_ex (includesStr (toLowerCase a)) [''code'', ''otp'', ''token''])
                      [el_id i, el_name i, placeholder i]) (inputsOf p) \<or>
      list_ex (\<lambda>i. 4 \<le> maxLength i \<and> maxLength i \<le> 8 \<and>
                   el_type i \<in> set [''text'', ''number'', ''tel'']) (inputsOf p))"

section \<open>Properties\<close>

subsection \<open>Strings\<close>

lemma startsWith_iff: "startsWith s p \<longleftrightarrow> (\<exists>t. s = p @ t)"
  by (induction s p rule: startsWith.induct) auto

lemma includes_iff: "includesStr s sub \<longleftrightarrow> (\<exists>a b. s = a @ sub @ b)"
proof (induction s)
  case Nil
  then show ?case by auto
next
  case (Cons c cs)
  show ?case
  proof
    assume "includesStr (c # cs) sub"
    then consider "startsWith (c # cs) sub" | "includesStr cs sub" by auto
    then show "\<exists>a b. c # cs = a @ sub @ b"
    proof cases
      case 1
      then obtain t where "c # cs = sub @ t" by (auto simp: startsWith_iff)
      then have "c # cs = [] @ sub @ t" by simp
      then show ?thesis by blast
    next
      case 2
      then obtain a b where "cs = a @ sub @ b" using Cons.IH by blast
      then have "c # cs = (c # a) @ sub @ b" by simp
      then show ?thesis by blast
    qed
  next
    assume "\<exists>a b. c # cs = a @ sub @ b"
    then obtain a b where ab: "c # cs = a @ sub @ b" by blast
    show "includesStr (c # cs) sub"
    proof (cases a)
      case Nil
      with ab have "startsWith (c # cs) sub" by (auto simp: startsWith_iff)
      then show ?thesis by simp
    next
      case (Cons x a')
      with ab have "cs = a' @ sub @ b" by simp
      then have "includesStr cs sub" using Cons.IH by blast
      then show ?thesis by simp
    qed
  qed
qed

lemma includes_trans: "includesStr s a \<Longrightarrow> includesStr a b \<Longrightarrow> includesStr s b"
  unfolding includes_iff by (metis append.assoc)

subsection \<open>The cookie snapshot\<close>

text \<open>
  C2 (as amended): when the stored snapshot is a non-empty array, \<open>restoreSavedCookies\<close>
  returns an array of the same length in which every cookie whose \<open>expires\<close> is present,
  greater than 0 and less than the current time has \<open>expires\<close> replaced by the session
  marker \<open>-1\<close> and every other field (name, value, domain, path, httpOnly, secure,
  sameSite) unchanged, and every other cookie is returned unchanged.
\<close>

theorem restoreSavedCookies_expired:
  assumes "cs \<noteq> []"
  shows "\<exists>rs. restoreSavedCookies now (KvCookies cs) = Some rs \<and> length rs = length cs \<and>
    (\<forall>i<length cs.
       cname (rs ! i) = cname (cs ! i) \<and> cvalue (rs ! i) = cvalue (cs ! i) \<and>
       cdomain (rs ! i) = cdomain (cs ! i) \<and> cpath (rs ! i) = cpath (cs ! i) \<and>
       httpOnly (rs ! i) = httpOnly (cs ! i) \<and> secure (rs ! i) = secure (cs ! i) \<and>
       sameSite (rs ! i) = sameSite (cs ! i) \<and>
       rs ! i =
         (if \<exists>e. expires (cs ! i) = Some e \<and> 0 < e \<and> e < now
          then (cs ! i)\<lparr>expires := Some (- 1)\<rparr> else cs ! i))"
  using assms
  by (auto simp: restoreSavedCookies_def fixCookie_def isExpired_def split: option.splits)

text \<open>
  The theorem at a snapshot of two cookies, read at time 1700000000: the first one expired
  at 1600000000 and becomes a session cookie, the second one expires at 1800000000 and is
  kept.
\<close>

theorem restoreSavedCookies_expired_witness:
  "[mkCookie ''_cl'' ''a'' ''.manheim.com'' (Some 1600000000),
    mkCookie ''SESSION'' ''b'' ''.manheim.com'' (Some 1800000000)] \<noteq> [] \<and>
   restoreSavedCookies 1700000000
     (KvCookies [mkCookie ''_cl'' ''a'' ''.manheim.com'' (Some 1600000000),
                 mkCookie ''SESSION'' ''b'' ''.manheim.com'' (Some 1800000000)]) =
   Some [mkCookie ''_cl'' ''a'' ''.manheim.com'' (Some (- 1)),
         mkCookie ''SESSION'' ''b'' ''.manheim.com'' (Some 1800000000)]"
  using restoreSavedCookies_expired
    [of "[mkCookie ''_cl'' ''a'' ''.manheim.com'' (Some 1600000000),
          mkCookie ''SESSION'' ''b'' ''.manheim.com'' (Some 1800000000)]" 1700000000]
  by (simp add: restoreSavedCookies_def fixCookie_def isExpired_def mkCookie_def)

text \<open>
  C2 as stated fails: a cookie whose \<open>expires\<close> is 0 (1 January 1970) is strictly in the
  past at time 1700000000, and \<open>restoreSavedCookies\<close> returns it with \<open>expires\<close> still 0.
\<close>

theorem restoreSavedCookies_epoch_zero_counterexample:
  "expires (mkCookie ''_cl'' ''a'' ''.manheim.com'' (Some 0)) = Some 0 \<and>
   (0::real) < 1700000000 \<and>
   restoreSavedCookies 1700000000 (KvCookies [mkCookie ''_cl'' ''a'' ''.manheim.com'' (Some 0)]) =
     Some [mkCookie ''_cl'' ''a'' ''.manheim.com'' (Some 0)] \<and>
   mkCookie ''_cl'' ''a'' ''.manheim.com'' (Some 0) \<noteq>
     (mkCookie ''_cl'' ''a'' ''.manheim.com'' (Some 0))\<lparr>expires := Some (- 1)\<rparr>"
  by (simp add: restoreSavedCookies_def fixCookie_def isExpired_def mkCookie_def)

subsection \<open>Humanized delays\<close>






subsection \<open>The page-state classifier\<close>

lemma exists_iff: "exists p sel \<longleftrightarrow> (\<exists>e \<in> set (elements p). matches sel e)"
  by (auto simp: exists_def querySelector_def find_None_iff)

text \<open>
  C6 (as amended): \<open>detect2FAPage\<close> returns true iff the lower-cased page text contains
  one of the seven phrases "verification code", "authentication code", "enter code",
  "two-factor", "2fa", "otp", "security code", or there is an input of type text, number
  or tel whose id or name contains code, otp or token, or whose placeholder contains code
  or verification, or whose maxLength is in 4 to 8. It is true for a page with the text
  "Enter your verification code" and no input, true for a page with only an input of
  maxlength 6 and type text, and false for a login page that has neither signal.
\<close>

theorem detect2FAPage_iff:
  "(detect2FAPage p \<longleftrightarrow>
     (\<exists>ph \<in> set [''verification code'', ''authentication code'', ''enter code'', ''two-factor'',
                  ''2fa'', ''otp'', ''security code''].
        includesStr (toLowerCase (textContent p)) ph) \<or>
     (\<exists>i \<in> set (elements p). tag i = ''input'' \<and>
        el_type i \<in> {''text'', ''number'', ''tel''} \<and>
        ((\<exists>w \<in> {''code'', ''otp'', ''token''}.
            includesStr (toLowerCase (el_id i)) w \<or> includesStr (toLowerCase (el_name i)) w) \<or>
         includesStr (toLowerCase (placeholder i)) ''code'' \<or>
         includesStr (toLowerCase (placeholder i)) ''verification'' \<or>
         (4 \<le> maxLength i \<and> maxLength i \<le> 8)))) \<and>
   detect2FAPage (textOnlyPage ''Enter your verification code'') \<and>
   detect2FAPage (inputOnlyPage (mkInput [] [] [] ''text'' 6)) \<and>
   \<not> detect2FAPage loginPage"
proof -
  have general: "detect2FAPage p \<longleftrightarrow>
     (\<exists>ph \<in> set [''verification code'', ''authentication code'', ''enter code'', ''two-factor'',
                  ''2fa'', ''otp'', ''security code''].
        includesStr (toLowerCase (textContent p)) ph) \<or>
     (\<exists>i \<in> set (elements p). tag i = ''input'' \<and>
        el_type i \<in> {''text'', ''number'', ''tel''} \<and>
        ((\<exists>w \<in> {''code'', ''otp'', ''token''}.
            includesStr (toLowerCase (el_id i)) w \<or> includesStr (toLowerCase (el_name i)) w) \<or>
         includesStr (toLowerCase (placeholder i)) ''code'' \<or>
         includesStr (toLowerCase (placeholder i)) ''verification'' \<or>
         (4 \<le> maxLength i \<and> maxLength i \<le> 8)))"
    unfolding detect2FAPage_def has2FAText_def has2FAInput_def inputsOf_def
      looksLike2FAInput_def Let_def list_ex_iff
    by (simp only: set_filter) auto
  have f1: "detect2FAPage (textOnlyPage ''Enter your verification code'')"
    by (simp add: detect2FAPage_def has2FAText_def textOnlyPage_def toLowerCase_def
        lowerChar_def upperChars_def lowerChars_def)
  have f2: "detect2FAPage (inputOnlyPage (mkInput [] [] [] ''text'' 6))"
    by (simp add: detect2FAPage_def has2FAInput_def inputsOf_def inputOnlyPage_def
        looksLike2FAInput_def mkInput_def)
  have f3: "\<not> detect2FAPage loginPage"
    by (simp add: detect2FAPage_def has2FAText_def has2FAInput_def inputsOf_def loginPage_def
        looksLike2FAInput_def mkInput_def toLowerCase_def lowerChar_def upperChars_def lowerChars_def)
  from general f1 f2 f3 show ?thesis by blast
qed

text \<open>
  C6 as stated fails. A page that mentions "2FA" and has no input is a two-factor page for
  \<open>detect2FAPage\<close>, and has none of the signals the claim lists; so is a page whose only
  input is a text field with the placeholder "Verification". A page whose only input is a
  hidden field with the id "token", or a text field with the placeholder "Enter OTP", has
  a signal of the claim and is no two-factor page for \<open>detect2FAPage\<close>.
\<close>

theorem detect2FAPage_2fa_counterexample:
  "detect2FAPage (textOnlyPage ''Set up 2FA later'') \<and>
   \<not> spec_isTwoFactorPage (textOnlyPage ''Set up 2FA later'') \<and>
   detect2FAPage (inputOnlyPage (mkInput [] [] ''Verification'' ''text'' (- 1))) \<and>
   \<not> spec_isTwoFactorPage (inputOnlyPage (mkInput [] [] ''Verification'' ''text'' (- 1))) \<and>
   \<not> detect2FAPage (inputOnlyPage (mkInput ''token'' ''csrf'' [] ''hidden'' (- 1))) \<and>
   spec_isTwoFactorPage (inputOnlyPage (mkInput ''token'' ''csrf'' [] ''hidden'' (- 1))) \<and>
   \<not> detect2FAPage (inputOnlyPage (mkInput [] [] ''Enter OTP'' ''text'' (- 1))) \<and>
   spec_isTwoFactorPage (inputOnlyPage (mkInput [] [] ''Enter OTP'' ''text'' (- 1)))"
  by (simp add: detect2FAPage_def has2FAText_def has2FAInput_def inputsOf_def textOnlyPage_def
      inputOnlyPage_def mkInput_def looksLike2FAInput_def
      spec_isTwoFactorPage_def toLowerCase_def lowerChar_def upperChars_def lowerChars_def)

text \<open>
  C7: \<open>hasCaptcha\<close> holds exactly when the visible text contains one of the human-challenge
  phrases and, at the same time, the document has a reCAPTCHA or hCaptcha container, an
  element with a sitekey attribute, or an iframe whose source contains "captcha"; so it is
  true only when both are present. It is false for a page of prose with the word "robot"
  and no such element, also when the prose has the phrase "I am not a robot".
\<close>

theorem hasCaptcha_iff:
  "(hasCaptcha (detectCaptchaOrBlocking p) \<longleftrightarrow>
     (\<exists>ph \<in> set [''complete the captcha'', ''solve the captcha'', ''verify you are human'',
                  ''verify you're human'', ''i am not a robot''].
        includesStr (toLowerCase (innerText p)) ph) \<and>
     (\<exists>e \<in> set (elements p).
        ''g-recaptcha'' \<in> set (classes e) \<or> ''h-captcha'' \<in> set (classes e) \<or>
        (\<exists>v. map_of (attrs e) ''data-sitekey'' = Some v) \<or>
        (tag e = ''iframe'' \<and>
         (\<exists>src. map_of (attrs e) ''src'' = Some src \<and> includesStr src ''captcha'')))) \<and>
   hasCaptcha (detectCaptchaOrBlocking (textOnlyPage
     ''Our warehouse robot packs every order within a day.'')) = False \<and>
   hasCaptcha (detectCaptchaOrBlocking (textOnlyPage
     ''We never sell your data to a robot. Tick I am not a robot to continue.'')) = False"
proof -
  have sub: "includesStr ''recaptcha'' ''captcha''" "includesStr ''hcaptcha'' ''captcha''"
    by simp_all
  have re: "exists p (TagAttrHas ''iframe'' ''src'' ''recaptcha'') \<Longrightarrow>
            exists p (TagAttrHas ''iframe'' ''src'' ''captcha'')"
    unfolding exists_iff using includes_trans[OF _ sub(1)] by (auto split: option.splits)
  have h: "exists p (TagAttrHas ''iframe'' ''src'' ''hcaptcha'') \<Longrightarrow>
           exists p (TagAttrHas ''iframe'' ''src'' ''captcha'')"
    unfolding exists_iff using includes_trans[OF _ sub(2)] by (auto split: option.splits)
  have w: "(hasRecaptchaElement p \<or> hasHcaptchaElement p \<or> hasCaptchaIframe p) \<longleftrightarrow>
     (\<exists>e \<in> set (elements p).
        ''g-recaptcha'' \<in> set (classes e) \<or> ''h-captcha'' \<in> set (classes e) \<or>
        (\<exists>v. map_of (attrs e) ''data-sitekey'' = Some v) \<or>
        (tag e = ''iframe'' \<and>
         (\<exists>src. map_of (attrs e) ''src'' = Some src \<and> includesStr src ''captcha'')))"
    (is "?L \<longleftrightarrow> ?R")
  proof
    assume ?L
    then have "exists p (ClassSel ''g-recaptcha'') \<or> exists p (HasAttr ''data-sitekey'') \<or>
       exists p (ClassSel ''h-captcha'') \<or> exists p (TagAttrHas ''iframe'' ''src'' ''captcha'')"
      unfolding hasRecaptchaElement_def hasHcaptchaElement_def hasCaptchaIframe_def
      using re h by blast
    then show ?R unfolding exists_iff by (auto split: option.splits)
  next
    assume ?R
    then have "exists p (ClassSel ''g-recaptcha'') \<or> exists p (HasAttr ''data-sitekey'') \<or>
       exists p (ClassSel ''h-captcha'') \<or> exists p (TagAttrHas ''iframe'' ''src'' ''captcha'')"
      unfolding exists_iff by (auto split: option.splits)
    then show ?L
      unfolding hasRecaptchaElement_def hasHcaptchaElement_def hasCaptchaIframe_def by blast
  qed
  have t: "hasChallengeText p \<longleftrightarrow>
     (\<exists>ph \<in> set [''complete the captcha'', ''solve the captcha'', ''verify you are human'',
                  ''verify you're human'', ''i am not a robot''].
        includesStr (toLowerCase (innerText p)) ph)"
    unfolding hasChallengeText_def Let_def by simp
  have general: "hasCaptcha (detectCaptchaOrBlocking p) \<longleftrightarrow>
     (\<exists>ph \<in> set [''complete the captcha'', ''solve the captcha'', ''verify you are human'',
                  ''verify you're human'', ''i am not a robot''].
        includesStr (toLowerCase (innerText p)) ph) \<and>
     (\<exists>e \<in> set (elements p).
        ''g-recaptcha'' \<in> set (classes e) \<or> ''h-captcha'' \<in> set (classes e) \<or>
        (\<exists>v. map_of (attrs e) ''data-sitekey'' = Some v) \<or>
        (tag e = ''iframe'' \<and>
         (\<exists>src. map_of (attrs e) ''src'' = Some src \<and> includesStr src ''captcha'')))"
    unfolding detectCaptchaOrBlocking_def Let_def hasCaptchaChallenge_def
    using w t by simp
  have robot: "hasCaptcha (detectCaptchaOrBlocking (textOnlyPage
     ''Our warehouse robot packs every order within a day.'')) = False"
    "hasCaptcha (detectCaptchaOrBlocking (textOnlyPage
     ''We never sell your data to a robot. Tick I am not a robot to continue.'')) = False"
    by (simp_all add: detectCaptchaOrBlocking_def hasCaptchaChallenge_def
        hasRecaptchaElement_def hasHcaptchaElement_def hasCaptchaIframe_def exists_def
        querySelector_def textOnlyPage_def Let_def)
  from general robot show ?thesis by blast
qed

subsection \<open>The two-factor webhook response\<close>

text \<open>
  C3: for the body \<open>{"code":"123456"}\<close> the parsed code is "123456", for the body
  \<open>"654321"\<close> (a JSON string) it is "654321", for the plain text 789012 it is "789012"
  (whether \<open>JSON.parse\<close> gives the number or rejects the text). In general a decoded
  JSON primitive, a string or a number, is stringified and trimmed, a decoded JSON object
  is probed for the keys code, 2fa_code, otp, token in that order (the first one whose
  value is truthy is the code, and there is no code when none is), and a body that fails
  JSON decoding is used as the trimmed raw text.
\<close>

theorem parseTwoFACode_cases:
  \<open>(JSON_parse body = None \<longrightarrow> parseTwoFACode JSON_parse body = Some (JString (trim body))) \<and>
   (\<forall>s. JSON_parse body = Some (JString s) \<or> JSON_parse body = Some (JNumber s) \<longrightarrow>
        parseTwoFACode JSON_parse body = Some (JString (trim s))) \<and>
   (\<forall>kvs. JSON_parse body = Some (JObject kvs) \<and> ok status \<longrightarrow>
        requestTwoFACode JSON_parse (FetchResponse status body) =
          (case probeKeys kvs [''code'', ''2fa_code'', ''otp'', ''token''] of
             None \<Rightarrow> Inl TwoFANoCode | Some v \<Rightarrow> Inr v)) \<and>
   (JSON_parse ''{"code":"123456"}'' = Some (JObject [(''code'', JString ''123456'')]) \<longrightarrow>
      requestTwoFACode JSON_parse (FetchResponse 200 ''{"code":"123456"}'') =
        Inr (JString ''123456'')) \<and>
   (JSON_parse ''"654321"'' = Some (JString ''654321'') \<longrightarrow>
      requestTwoFACode JSON_parse (FetchResponse 200 ''"654321"'') = Inr (JString ''654321'')) \<and>
   (JSON_parse ''789012'' = Some (JNumber ''789012'') \<or> JSON_parse ''789012'' = None \<longrightarrow>
      requestTwoFACode JSON_parse (FetchResponse 200 ''789012'') = Inr (JString ''789012''))\<close>
proof -
  have a: "JSON_parse body = None \<longrightarrow>
           parseTwoFACode JSON_parse body = Some (JString (trim body))"
    by (simp add: parseTwoFACode_def)
  have b: "\<forall>s. JSON_parse body = Some (JString s) \<or> JSON_parse body = Some (JNumber s) \<longrightarrow>
        parseTwoFACode JSON_parse body = Some (JString (trim s))"
    by (auto simp: parseTwoFACode_def)
  have c: "\<forall>kvs. JSON_parse body = Some (JObject kvs) \<and> ok status \<longrightarrow>
        requestTwoFACode JSON_parse (FetchResponse status body) =
          (case probeKeys kvs [''code'', ''2fa_code'', ''otp'', ''token''] of
             None \<Rightarrow> Inl TwoFANoCode | Some v \<Rightarrow> Inr v)"
    by (auto simp: requestTwoFACode_def parseTwoFACode_def jsOr_def split: option.splits)
  have d: \<open>JSON_parse ''{"code":"123456"}'' = Some (JObject [(''code'', JString ''123456'')]) \<longrightarrow>
      requestTwoFACode JSON_parse (FetchResponse 200 ''{"code":"123456"}'') =
        Inr (JString ''123456'')\<close>
    by (simp add: requestTwoFACode_def parseTwoFACode_def jsOr_def ok_def)
  have e: \<open>JSON_parse ''"654321"'' = Some (JString ''654321'') \<longrightarrow>
      requestTwoFACode JSON_parse (FetchResponse 200 ''"654321"'') = Inr (JString ''654321'')\<close>
    by (simp add: requestTwoFACode_def parseTwoFACode_def ok_def trim_def isSpace_def)
  have f: "JSON_parse ''789012'' = Some (JNumber ''789012'') \<or> JSON_parse ''789012'' = None \<longrightarrow>
      requestTwoFACode JSON_parse (FetchResponse 200 ''789012'') = Inr (JString ''789012'')"
    by (auto simp: requestTwoFACode_def parseTwoFACode_def ok_def trim_def isSpace_def)
  from a b c d e f show ?thesis by blast
qed

text \<open>
  The theorem at the three bodies of the claim, at a plain text with white space around it
  that is no JSON, and at an object with the key otp.
\<close>

theorem parseTwoFACode_cases_witness:
  \<open>sampleDecode ''{"code":"123456"}'' = Some (JObject [(''code'', JString ''123456'')]) \<and>
   requestTwoFACode sampleDecode (FetchResponse 200 ''{"code":"123456"}'') =
     Inr (JString ''123456'') \<and>
   sampleDecode ''"654321"'' = Some (JString ''654321'') \<and>
   requestTwoFACode sampleDecode (FetchResponse 200 ''"654321"'') = Inr (JString ''654321'') \<and>
   sampleDecode ''789012'' = Some (JNumber ''789012'') \<and>
   requestTwoFACode sampleDecode (FetchResponse 200 ''789012'') = Inr (JString ''789012'') \<and>
   sampleDecode ''  A1B2C3 '' = None \<and>
   parseTwoFACode sampleDecode ''  A1B2C3 '' = Some (JString ''A1B2C3'') \<and>
   sampleDecode ''{"otp":"000111"}'' = Some (JObject [(''otp'', JString ''000111'')]) \<and>
   ok 200 \<and>
   requestTwoFACode sampleDecode (FetchResponse 200 ''{"otp":"000111"}'') =
     Inr (JString ''000111'')\<close>
proof -
  have d: \<open>sampleDecode ''{"code":"123456"}'' = Some (JObject [(''code'', JString ''123456'')])\<close>
    and e: \<open>sampleDecode ''"654321"'' = Some (JString ''654321'')\<close>
    and f: \<open>sampleDecode ''789012'' = Some (JNumber ''789012'')\<close>
    and g: \<open>sampleDecode ''  A1B2C3 '' = None\<close>
    and h: \<open>sampleDecode ''{"otp":"000111"}'' = Some (JObject [(''otp'', JString ''000111'')])\<close>
    by (simp_all add: sampleDecode_def)
  have k: "ok 200" by (simp add: ok_def)
  have t: "trim ''  A1B2C3 '' = ''A1B2C3''" by (simp add: trim_def isSpace_def)
  note w1 = parseTwoFACode_cases [of sampleDecode \<open>''  A1B2C3 ''\<close> 200]
  note w2 = parseTwoFACode_cases [of sampleDecode \<open>''{"otp":"000111"}''\<close> 200]
  show ?thesis using w1 w2 d e f g h k t by simp
qed

text \<open>
  A code that is not a string does not pass \<open>page.fill\<close>: for the body \<open>{"code":123456}\<close>
  the code is the number 123456, and the login flow throws after the request.
\<close>

lemma handleLoginFlow_number_code:
  assumes "le_formWait le = None" "le_submitFound le"
      and "detect2FAPage (le_pageAfterSubmit le)"
      and "find2FAInput (le_pageAfterSubmit le) = Some twoFAInput"
      and "le_twoFAResponse le = FetchResponse 200 body"
      and "J body = Some (JObject [(''code'', JNumber ''123456'')])"
  shows "handleLoginFlow J le c u =
           ([TwoFactorPost u (username c)],
            Inl (Thrown ''page.fill: value: expected string, got number''))"
  using assms
  by (simp add: handleLoginFlow_def requestTwoFACode_def parseTwoFACode_def jsOr_def ok_def)

subsection \<open>Pre-flight validation\<close>

lemmas run_eval =
  Actor_main_def preflight_def withDefault_def nonEmptyCookies_def andThen_def launch_def
  injectCookies_def guarded_def tryBlock_def authenticate_def cookiesPath_def credentialsPath_def
  warmUp_def extractAndDeliver_def extractEssential_def extractStep_def missingOf_def
  requiredNames_def optionalNames_def essentialNames_def recoveryPass_def retryStep_def
  webhookPayload_def cookieArray_def cookieDetailsOf_def expiresOrSession_def domainOf_def
  domainOrDefault_def deliver_def ok_def notifyFailure_def failurePayload_def hasCredentials_def
  credentialsOf_def hasExistingCookies_def restoreSavedCookies_def Let_def
  List.map_filter_def pollLoop.simps

lemmas fixture_eval =
  quietEnv_def quietLogin_def fourCookies_def mkCookie_def cookieInput_def credentialsInput_def
  emptyInput_def textOnlyPage_def defaultCookieWebhookUrl_def defaultTwoFactorWebhookUrl_def
  cookieConfig_def credentialsConfig_def

text \<open>
  C9 (as amended): pre-flight validation raises a fatal error, before any browser or
  storage interaction (the trace of the run is empty), exactly when the input is null, or
  \<open>cookieWebhookUrl\<close> is null or the empty string (an omitted \<open>cookieWebhookUrl\<close> takes
  the built-in default URL and passes), or the input supplies neither a non-empty cookies
  array nor credentials. A null or empty \<open>cookieWebhookUrl\<close> is refused whatever else the
  input supplies.
\<close>

theorem preflight_fails_iff:
  "((\<exists>e. preflight input = Inl e) \<longleftrightarrow>
      input = None \<or>
      (\<exists>i. input = Some i \<and>
         (in_cookieWebhookUrl i = Null \<or> in_cookieWebhookUrl i = Val [] \<or>
          (in_manheimCookies i \<in> {Undefined, Null, Val []} \<and>
           in_credentials i \<in> {Undefined, Null})))) \<and>
   (\<forall>e. preflight input = Inl e \<longrightarrow> Actor_main input w = ([], Inl e)) \<and>
   (\<forall>i. input = Some i \<and> (in_cookieWebhookUrl i = Null \<or> in_cookieWebhookUrl i = Val []) \<longrightarrow>
        preflight input = Inl WebhookUrlRequired)"
proof -
  have a: "(\<exists>e. preflight input = Inl e) \<longleftrightarrow>
      input = None \<or>
      (\<exists>i. input = Some i \<and>
         (in_cookieWebhookUrl i = Null \<or> in_cookieWebhookUrl i = Val [] \<or>
          (in_manheimCookies i \<in> {Undefined, Null, Val []} \<and>
           in_credentials i \<in> {Undefined, Null})))"
  proof (cases input)
    case None
    then show ?thesis by (simp add: preflight_def)
  next
    case (Some i)
    show ?thesis
      unfolding Some
      by (cases "in_cookieWebhookUrl i"; cases "in_manheimCookies i"; cases "in_credentials i")
         (auto simp: preflight_def withDefault_def nonEmptyCookies_def Let_def
            defaultCookieWebhookUrl_def)
  qed
  have b: "\<forall>e. preflight input = Inl e \<longrightarrow> Actor_main input w = ([], Inl e)"
    by (simp add: Actor_main_def)
  have c: "\<forall>i. input = Some i \<and>
             (in_cookieWebhookUrl i = Null \<or> in_cookieWebhookUrl i = Val []) \<longrightarrow>
        preflight input = Inl WebhookUrlRequired"
    by (auto simp: preflight_def withDefault_def Let_def)
  from a b c show ?thesis by blast
qed

text \<open>
  The theorem at an input with neither cookies nor credentials, and at an input with
  credentials and an empty \<open>cookieWebhookUrl\<close>.
\<close>

theorem preflight_fails_iff_witness:
  "preflight (Some emptyInput) = Inl CookiesOrCredentialsRequired \<and>
   Actor_main (Some emptyInput) quietEnv = ([], Inl CookiesOrCredentialsRequired) \<and>
   preflight (Some (credentialsInput\<lparr>in_cookieWebhookUrl := Val []\<rparr>)) = Inl WebhookUrlRequired"
  using preflight_fails_iff [of "Some emptyInput" quietEnv]
    preflight_fails_iff [of "Some (credentialsInput\<lparr>in_cookieWebhookUrl := Val []\<rparr>)" quietEnv]
  by (simp add: emptyInput_def credentialsInput_def preflight_def withDefault_def
       nonEmptyCookies_def defaultCookieWebhookUrl_def)

text \<open>
  C9 as stated fails: an input with credentials that omits \<open>cookieWebhookUrl\<close> passes the
  validation, with the default URL.
\<close>

theorem preflight_default_url_counterexample:
  "in_cookieWebhookUrl credentialsInput = Undefined \<and>
   preflight (Some credentialsInput) = Inr credentialsConfig"
  by (simp add: credentialsInput_def credentialsConfig_def preflight_def withDefault_def
       nonEmptyCookies_def defaultCookieWebhookUrl_def)

subsection \<open>Traces and results of the run\<close>

lemma andThen_fst:
  "fst (andThen m f) = (case snd m of Inl e \<Rightarrow> fst m | Inr x \<Rightarrow> fst m @ fst (f x))"
  by (cases m; cases "snd m") (auto simp: andThen_def split: prod.splits)

lemma andThen_snd:
  "snd (andThen m f) = (case snd m of Inl e \<Rightarrow> Inl e | Inr x \<Rightarrow> snd (f x))"
  by (cases m; cases "snd m") (auto simp: andThen_def split: prod.splits)

lemma postsOf_append: "postsOf (a @ b) = postsOf a @ postsOf b"
  by (induction a rule: postsOf.induct) auto

lemma no_posts_no_success: "postsOf evs = [] \<Longrightarrow> filter isSuccessPost evs = []"
  by (induction evs rule: postsOf.induct) auto

lemma handleLoginFlow_posts: "postsOf (fst (handleLoginFlow J le c u)) = []"
  by (simp add: handleLoginFlow_def split: option.splits sum.splits)

lemma authenticate_posts: "postsOf (fst (authenticate cfg w b)) = []"
  by (simp add: authenticate_def cookiesPath_def credentialsPath_def andThen_fst andThen_snd
      postsOf_append handleLoginFlow_posts Let_def split: sum.splits)

lemma warmUp_posts: "postsOf (fst (warmUp w)) = []"
  by (simp add: warmUp_def)

lemma launch_posts: "postsOf (launch w) = []"
  by (simp add: launch_def)

lemma injectCookies_posts: "postsOf (fst (injectCookies cfg w)) = []"
  by (simp add: injectCookies_def Let_def)

lemma recoveryPass_posts: "postsOf (fst (recoveryPass w st)) = []"
  by (simp add: recoveryPass_def split: option.splits)

lemma deliver_posts: "postsOf (fst (deliver cfg w p)) = [(cookieWebhookUrl cfg, p)]"
  by (simp add: deliver_def split: fetch_result.splits option.splits)

lemma notifyFailure_eq:
  "notifyFailure cfg w e =
     [WebhookPost (cookieWebhookUrl cfg) (failurePayload (e_failureTimestamp w) e)]"
  by (simp add: notifyFailure_def split: fetch_result.splits)

lemma guarded_fst:
  "fst (guarded cfg w b) =
     (case snd (tryBlock cfg w b) of
        Inl e \<Rightarrow> fst (tryBlock cfg w b) @
                 [WebhookPost (cookieWebhookUrl cfg) (failurePayload (e_failureTimestamp w) e),
                  BrowserClose, StoreWrite ''browser-profile'']
      | Inr u \<Rightarrow> fst (tryBlock cfg w b) @ [BrowserClose, StoreWrite ''browser-profile''])"
  by (cases "tryBlock cfg w b"; cases "snd (tryBlock cfg w b)")
     (auto simp: guarded_def notifyFailure_eq)

lemma guarded_snd: "snd (guarded cfg w b) = snd (tryBlock cfg w b)"
  by (cases "tryBlock cfg w b"; cases "snd (tryBlock cfg w b)") (auto simp: guarded_def)

lemma Actor_main_snd:
  "snd (Actor_main input w) =
     (case preflight input of
        Inl e \<Rightarrow> Inl e
      | Inr cfg \<Rightarrow>
          (case snd (injectCookies cfg w) of
             Inl e \<Rightarrow> Inl e
           | Inr b \<Rightarrow> snd (tryBlock cfg w b)))"
  by (simp add: Actor_main_def andThen_snd guarded_snd split: sum.splits)

lemma Actor_main_fst:
  "fst (Actor_main input w) =
     (case preflight input of
        Inl e \<Rightarrow> []
      | Inr cfg \<Rightarrow>
          (case snd (injectCookies cfg w) of
             Inl e \<Rightarrow> launch w @ fst (injectCookies cfg w)
           | Inr b \<Rightarrow> launch w @ fst (injectCookies cfg w) @ fst (guarded cfg w b)))"
  by (simp add: Actor_main_def andThen_fst andThen_snd split: sum.splits)

subsection \<open>Extraction of the essential cookies\<close>

lemma foldl_extractStep:
  "foldl extractStep m cs n =
     (case m n of
        Some c \<Rightarrow> Some c
      | None \<Rightarrow>
          if n \<in> set essentialNames
          then List.find (\<lambda>c. cname c = n \<and> includesStr (cdomain c) ''manheim'') cs
          else None)"
proof (induction cs arbitrary: m)
  case Nil
  then show ?case by (simp split: option.splits)
next
  case (Cons c cs)
  show ?case
    by (simp add: Cons.IH) (auto simp: extractStep_def split: option.splits)
qed

lemma extractEssential_None:
  "n \<in> set essentialNames \<Longrightarrow> extractEssential cs n = None \<longleftrightarrow> \<not> holds cs n"
  by (auto simp: extractEssential_def foldl_extractStep find_None_iff holds_def list_ex_iff)

lemma missingRequired_iff:
  "missingOf (extractEssential cs) requiredNames = [] \<longleftrightarrow>
     holds cs ''_cl'' \<and> holds cs ''SESSION''"
  by (simp add: missingOf_def requiredNames_def extractEssential_None essentialNames_def)

lemma missingRequired_eq:
  "missingOf (extractEssential cs) requiredNames =
     filter (\<lambda>n. \<not> holds cs n) [''_cl'', ''SESSION'']"
  by (simp add: missingOf_def requiredNames_def extractEssential_None essentialNames_def)

lemma extract_missing:
  assumes "\<not> holds (e_allCookies w) ''_cl'' \<or> \<not> holds (e_allCookies w) ''SESSION''"
  shows "extractAndDeliver cfg w =
          ([StoreWrite ''all-cookies-debug''],
           case e_debugWrite w of
             Some msg \<Rightarrow> Inl (Thrown msg)
           | None \<Rightarrow> Inl (MissingRequiredCookies
                        (filter (\<lambda>n. \<not> holds (e_allCookies w) n) [''_cl'', ''SESSION''])))"
proof -
  have "missingOf (extractEssential (e_allCookies w)) requiredNames \<noteq> []"
    using assms by (simp add: missingRequired_iff)
  then show ?thesis
    unfolding extractAndDeliver_def Let_def
    by (simp only: missingRequired_eq if_True split: option.splits) simp
qed

lemma tryBlock_missing:
  assumes "\<not> holds (e_allCookies w) ''_cl'' \<or> \<not> holds (e_allCookies w) ''SESSION''"
  shows "isl (snd (tryBlock cfg w b)) \<and> postsOf (fst (tryBlock cfg w b)) = []"
  by (simp add: tryBlock_def andThen_fst andThen_snd extract_missing[OF assms] postsOf_append
      authenticate_posts warmUp_posts split: sum.splits option.splits)

text \<open>
  C1: if, at extraction time, the browser's cookies hold no \<open>_cl\<close> or no \<open>SESSION\<close> (a
  cookie of that name whose domain contains "manheim"), then the run ends with a fatal
  error and its trace has no POST of an envelope with \<open>success: true\<close>; the extraction
  itself only writes the debug record and throws, "Missing required cookies" with the
  missing names when that write succeeds.
\<close>

theorem required_missing_fatal:
  assumes "\<not> holds (e_allCookies w) ''_cl'' \<or> \<not> holds (e_allCookies w) ''SESSION''"
  shows "isl (snd (Actor_main input w)) \<and>
         filter isSuccessPost (fst (Actor_main input w)) = [] \<and>
         (\<exists>e. extractAndDeliver cfg w = ([StoreWrite ''all-cookies-debug''], Inl e) \<and>
              (e_debugWrite w = None \<longrightarrow>
                 e = MissingRequiredCookies
                       (filter (\<lambda>n. \<not> holds (e_allCookies w) n) [''_cl'', ''SESSION''])))"
proof -
  have t: "\<And>cfg b. isl (snd (tryBlock cfg w b))" "\<And>cfg b. postsOf (fst (tryBlock cfg w b)) = []"
    using tryBlock_missing[OF assms] by simp_all
  have g: "\<And>cfg b. filter isSuccessPost (fst (guarded cfg w b)) = []"
  proof -
    fix cfg b
    show "filter isSuccessPost (fst (guarded cfg w b)) = []"
      using t(1)[of cfg b] no_posts_no_success[OF t(2)[of cfg b]]
      by (auto simp: guarded_fst failurePayload_def split: sum.splits)
  qed
  have l: "filter isSuccessPost (launch w) = []" by (simp add: launch_def)
  have i: "\<And>cfg. filter isSuccessPost (fst (injectCookies cfg w)) = []"
    by (simp add: injectCookies_posts no_posts_no_success)
  have a: "isl (snd (Actor_main input w))"
    by (simp add: Actor_main_def andThen_snd guarded_snd t(1) split: sum.splits)
  have b: "filter isSuccessPost (fst (Actor_main input w)) = []"
    by (simp add: Actor_main_def andThen_fst andThen_snd l i g split: sum.splits)
  have c: "\<exists>e. extractAndDeliver cfg w = ([StoreWrite ''all-cookies-debug''], Inl e) \<and>
              (e_debugWrite w = None \<longrightarrow>
                 e = MissingRequiredCookies
                       (filter (\<lambda>n. \<not> holds (e_allCookies w) n) [''_cl'', ''SESSION'']))"
    by (cases "e_debugWrite w") (simp_all add: extract_missing[OF assms])
  from a b c show ?thesis by blast
qed

text \<open>
  The theorem at a run with input cookies whose browser ends without \<open>_cl\<close>: the run
  raises "Missing required cookies: _cl", and its only POST is the failure envelope.
\<close>

theorem required_missing_fatal_witness:
  "\<not> holds (e_allCookies missingClWorld) ''_cl'' \<and>
   snd (Actor_main (Some cookieInput) missingClWorld) = Inl (MissingRequiredCookies [''_cl'']) \<and>
   postsOf (fst (Actor_main (Some cookieInput) missingClWorld)) =
     [(''https://hooks.example/cookies'',
       \<lparr>success = False, partial = None, missingCookies = None,
        timestamp = ''2025-01-28T10:31:00.000Z'', cookies = None, cookieDetails = None,
        error = Some (MissingRequiredCookies [''_cl''])\<rparr>)] \<and>
   filter isSuccessPost (fst (Actor_main (Some cookieInput) missingClWorld)) = []"
proof -
  have h: "\<not> holds (e_allCookies missingClWorld) ''_cl''"
    by (simp add: missingClWorld_def holds_def fixture_eval)
  have r: "Actor_main (Some cookieInput) missingClWorld =
    ([StoreRead ''browser-fingerprint'', StoreRead ''browser-profile'', BrowserLaunch,
      AddCookies fourCookies, Navigate ''https://mmr.manheim.com/'', WarmUpBrowsing,
      StoreWrite ''all-cookies-debug'',
      WebhookPost ''https://hooks.example/cookies''
        \<lparr>success = False, partial = None, missingCookies = None,
         timestamp = ''2025-01-28T10:31:00.000Z'', cookies = None, cookieDetails = None,
         error = Some (MissingRequiredCookies [''_cl''])\<rparr>,
      BrowserClose, StoreWrite ''browser-profile''],
     Inl (MissingRequiredCookies [''_cl'']))"
    by (simp add: missingClWorld_def run_eval fixture_eval)
  from required_missing_fatal[OF disjI1[OF h], of "Some cookieInput" cookieConfig] h r
  show ?thesis by simp
qed

subsection \<open>The failure notification\<close>

lemma authenticate_notification:
  "authenticate cfg (w\<lparr>e_notification := n\<rparr>) b = authenticate cfg w b"
  by (simp add: authenticate_def cookiesPath_def credentialsPath_def Let_def
      split: option.splits cong: if_cong)

lemma warmUp_notification: "warmUp (w\<lparr>e_notification := n\<rparr>) = warmUp w"
  by (simp add: warmUp_def)

lemma recoveryPass_notification:
  "recoveryPass (w\<lparr>e_notification := n\<rparr>) st = recoveryPass w st"
  by (simp add: recoveryPass_def split: option.splits)

lemma deliver_notification: "deliver cfg (w\<lparr>e_notification := n\<rparr>) p = deliver cfg w p"
  by (simp add: deliver_def split: fetch_result.splits option.splits)

lemma extractAndDeliver_notification:
  "extractAndDeliver cfg (w\<lparr>e_notification := n\<rparr>) = extractAndDeliver cfg w"
  by (simp add: extractAndDeliver_def recoveryPass_notification deliver_notification Let_def
      split: prod.splits option.splits cong: if_cong)

lemma tryBlock_notification:
  "tryBlock cfg (w\<lparr>e_notification := n\<rparr>) b = tryBlock cfg w b"
  by (simp add: tryBlock_def authenticate_notification warmUp_notification
      extractAndDeliver_notification)

lemma injectCookies_notification:
  "injectCookies cfg (w\<lparr>e_notification := n\<rparr>) = injectCookies cfg w"
  by (simp add: injectCookies_def Let_def)

text \<open>
  C8 (as amended): on any fatal error raised inside the guarded sequence (the \<open>try\<close>
  block: authentication, warm-up, extraction, delivery, backup), the last request of the
  run, before the browser is closed and the error is raised again, is a POST of the
  envelope \<open>{success: false, timestamp, error, cookies: null}\<close> to the same cookie webhook
  URL; whatever the outcome of that POST (also when it fails), the error raised by the run
  is the original one.
\<close>

theorem failure_notification:
  assumes "preflight input = Inr cfg" "snd (injectCookies cfg w) = Inr b"
      and "snd (tryBlock cfg w b) = Inl e"
  shows "snd (Actor_main input w) = Inl e \<and>
         fst (Actor_main input w) =
           launch w @ fst (injectCookies cfg w) @ fst (tryBlock cfg w b) @
           [WebhookPost (cookieWebhookUrl cfg)
              \<lparr>success = False, partial = None, missingCookies = None,
               timestamp = e_failureTimestamp w, cookies = None, cookieDetails = None,
               error = Some e\<rparr>,
            BrowserClose, StoreWrite ''browser-profile''] \<and>
         (\<forall>n. snd (Actor_main input (w\<lparr>e_notification := n\<rparr>)) = Inl e)"
proof -
  have a: "snd (Actor_main input w) = Inl e"
    using assms by (simp add: Actor_main_snd)
  have b: "fst (Actor_main input w) =
           launch w @ fst (injectCookies cfg w) @ fst (tryBlock cfg w b) @
           [WebhookPost (cookieWebhookUrl cfg)
              \<lparr>success = False, partial = None, missingCookies = None,
               timestamp = e_failureTimestamp w, cookies = None, cookieDetails = None,
               error = Some e\<rparr>,
            BrowserClose, StoreWrite ''browser-profile'']"
    using assms by (simp add: Actor_main_fst guarded_fst failurePayload_def)
  have c: "\<forall>n. snd (Actor_main input (w\<lparr>e_notification := n\<rparr>)) = Inl e"
    using assms
    by (simp add: Actor_main_snd tryBlock_notification injectCookies_notification)
  from a b c show ?thesis by blast
qed

text \<open>
  The theorem at a run whose delivery is answered with status 500 and whose notification
  cannot be sent: the success envelope and then the failure envelope are posted to the same
  URL, and the run raises "Webhook failed with status 500".
\<close>

theorem failure_notification_witness:
  "preflight (Some cookieInput) = Inr cookieConfig \<and>
   snd (injectCookies cookieConfig rejectingWorld) = Inr True \<and>
   snd (tryBlock cookieConfig rejectingWorld True) = Inl (WebhookFailed 500) \<and>
   e_notification rejectingWorld = FetchFailed ''ECONNREFUSED'' \<and>
   snd (Actor_main (Some cookieInput) rejectingWorld) = Inl (WebhookFailed 500) \<and>
   map (\<lambda>p. (fst p, success (snd p), error (snd p), cookies (snd p) = None))
     (postsOf (fst (Actor_main (Some cookieInput) rejectingWorld))) =
     [(''https://hooks.example/cookies'', True, None, False),
      (''https://hooks.example/cookies'', False, Some (WebhookFailed 500), True)]"
proof -
  have a: "preflight (Some cookieInput) = Inr cookieConfig"
    by (simp add: preflight_def withDefault_def nonEmptyCookies_def fixture_eval)
  have b: "snd (injectCookies cookieConfig rejectingWorld) = Inr True"
    by (simp add: rejectingWorld_def injectCookies_def nonEmptyCookies_def fixture_eval)
  have c: "tryBlock cookieConfig rejectingWorld True =
    ([Navigate ''https://mmr.manheim.com/'', WarmUpBrowsing, StoreWrite ''saved-cookies'',
      WebhookPost ''https://hooks.example/cookies''
        (webhookPayload ''2025-01-28T10:30:00.000Z'' False []
           (extractEssential fourCookies))],
     Inl (WebhookFailed 500))"
    by (simp add: rejectingWorld_def run_eval fixture_eval)
  have n: "e_notification rejectingWorld = FetchFailed ''ECONNREFUSED''"
    by (simp add: rejectingWorld_def)
  have l: "postsOf (launch rejectingWorld) = []"
    "postsOf (fst (injectCookies cookieConfig rejectingWorld)) = []"
    by (simp_all add: launch_posts injectCookies_posts)
  have c': "snd (tryBlock cookieConfig rejectingWorld True) = Inl (WebhookFailed 500)"
    using c by simp
  from failure_notification[OF a b c'] c
  have "snd (Actor_main (Some cookieInput) rejectingWorld) = Inl (WebhookFailed 500) \<and>
        fst (Actor_main (Some cookieInput) rejectingWorld) =
          launch rejectingWorld @ fst (injectCookies cookieConfig rejectingWorld) @
          fst (tryBlock cookieConfig rejectingWorld True) @
          [WebhookPost (cookieWebhookUrl cookieConfig)
             \<lparr>success = False, partial = None, missingCookies = None,
              timestamp = e_failureTimestamp rejectingWorld, cookies = None,
              cookieDetails = None, error = Some (WebhookFailed 500)\<rparr>,
           BrowserClose, StoreWrite ''browser-profile'']"
    by simp
  then show ?thesis
    using a b c n l
    by (simp add: postsOf_append webhookPayload_def cookieConfig_def)
qed

text \<open>
  C8 as stated fails: a run whose input has neither cookies nor credentials raises a fatal
  error and posts nothing, although the cookie webhook URL (the default) is known.
\<close>

theorem failure_notification_preflight_counterexample:
  "Actor_main (Some emptyInput) quietEnv = ([], Inl CookiesOrCredentialsRequired) \<and>
   postsOf (fst (Actor_main (Some emptyInput) quietEnv)) = []"
  by (simp add: run_eval fixture_eval)

subsection \<open>The recovery pass and the partial result\<close>

lemma retryStep_consistent: "consistent st \<Longrightarrow> consistent (retryStep st c)"
  by (cases st; cases "cname c = ''session''"; cases "cname c = ''session.sig''")
     (auto simp: consistent_def retryStep_def optionalNames_def)

lemma foldl_retryStep_consistent: "consistent st \<Longrightarrow> consistent (foldl retryStep st cs)"
  by (induction cs arbitrary: st) (simp_all add: retryStep_consistent)

lemma retryStep_fst:
  "fst (retryStep st c) n =
     (case fst st n of
        Some x \<Rightarrow> Some x
      | None \<Rightarrow> if n \<in> set optionalNames \<and> cname c = n \<and> includesStr (cdomain c) ''manheim''
                then Some c else None)"
  by (cases st) (auto simp: retryStep_def optionalNames_def split: option.splits)

lemma foldl_retryStep_fst:
  "fst (foldl retryStep st cs) n =
     (case fst st n of
        Some x \<Rightarrow> Some x
      | None \<Rightarrow>
          if n \<in> set optionalNames
          then List.find (\<lambda>c. cname c = n \<and> includesStr (cdomain c) ''manheim'') cs
          else None)"
proof (induction cs arbitrary: st)
  case Nil
  then show ?case by (simp split: option.splits)
next
  case (Cons c cs)
  show ?case
    by (simp add: Cons.IH retryStep_fst split: option.splits)
qed

lemma foldl_retryStep_None:
  "fst (foldl retryStep st cs) n = None \<longleftrightarrow>
     fst st n = None \<and> (n \<in> set optionalNames \<longrightarrow> \<not> holds cs n)"
  by (auto simp: foldl_retryStep_fst find_None_iff holds_def list_ex_iff split: option.splits)

lemma range_split:
  "r < (3::nat) \<Longrightarrow>
     (\<forall>k. r \<le> k \<and> k < 3 \<longrightarrow> P k) \<longleftrightarrow> P r \<and> (\<forall>k. r + 1 \<le> k \<and> k < 3 \<longrightarrow> P k)"
proof
  assume "r < 3" and a: "\<forall>k. r \<le> k \<and> k < 3 \<longrightarrow> P k"
  then show "P r \<and> (\<forall>k. r + 1 \<le> k \<and> k < 3 \<longrightarrow> P k)" by auto
next
  assume "r < 3" and a: "P r \<and> (\<forall>k. r + 1 \<le> k \<and> k < 3 \<longrightarrow> P k)"
  show "\<forall>k. r \<le> k \<and> k < 3 \<longrightarrow> P k"
  proof (intro allI impI)
    fix k assume k: "r \<le> k \<and> k < 3"
    show "P k"
    proof (cases "k = r")
      case True
      then show ?thesis using a by simp
    next
      case False
      with k have "r + 1 \<le> k" by simp
      with k a show ?thesis by blast
    qed
  qed
qed

lemma pollLoop_consistent: "consistent st \<Longrightarrow> consistent (pollLoop rc r st)"
proof (induction rc r st rule: pollLoop.induct)
  case (1 rc r st)
  show ?case
  proof (cases "r < 3 \<and> snd st \<noteq> []")
    case True
    then have "pollLoop rc r st = pollLoop rc (r + 1) (foldl retryStep st (rc r))"
      by (subst pollLoop.simps) simp
    with 1 True show ?thesis by (simp add: foldl_retryStep_consistent)
  next
    case False
    then have "pollLoop rc r st = st" by (subst pollLoop.simps) auto
    with 1 show ?thesis by simp
  qed
qed

text \<open>
  An optional cookie is still missing after the polls from \<open>r\<close> on exactly when it was
  missing before and none of them holds it: the loop goes on as long as a name is missing.
\<close>

lemma pollLoop_None:
  assumes "consistent st" "n \<in> set optionalNames"
  shows "fst (pollLoop rc r st) n = None \<longleftrightarrow>
           fst st n = None \<and> (\<forall>k. r \<le> k \<and> k < 3 \<longrightarrow> \<not> holds (rc k) n)"
  using assms(1)
proof (induction rc r st rule: pollLoop.induct)
  case (1 rc r st)
  show ?case
  proof (cases "r < 3 \<and> snd st \<noteq> []")
    case True
    then have eq: "pollLoop rc r st = pollLoop rc (r + 1) (foldl retryStep st (rc r))"
      by (subst pollLoop.simps) simp
    have c: "consistent (foldl retryStep st (rc r))"
      using 1(2) by (rule foldl_retryStep_consistent)
    have "fst (pollLoop rc r st) n = None \<longleftrightarrow>
          fst (foldl retryStep st (rc r)) n = None \<and>
          (\<forall>k. r + 1 \<le> k \<and> k < 3 \<longrightarrow> \<not> holds (rc k) n)"
      using 1(1)[OF True c] eq by simp
    also have "\<dots> \<longleftrightarrow> fst st n = None \<and> \<not> holds (rc r) n \<and>
                       (\<forall>k. r + 1 \<le> k \<and> k < 3 \<longrightarrow> \<not> holds (rc k) n)"
      using assms(2) by (auto simp: foldl_retryStep_None)
    also have "\<dots> \<longleftrightarrow> fst st n = None \<and> (\<forall>k. r \<le> k \<and> k < 3 \<longrightarrow> \<not> holds (rc k) n)"
      using True range_split[of r "\<lambda>k. \<not> holds (rc k) n"] by blast
    finally show ?thesis .
  next
    case False
    then have eq: "pollLoop rc r st = st" by (subst pollLoop.simps) auto
    show ?thesis
    proof (cases "r < 3")
      case True
      with False have "snd st = []" by simp
      then have "filter (\<lambda>n. fst st n = None) optionalNames = []"
        using 1(2) by (simp add: consistent_def)
      then have "fst st n \<noteq> None"
        using assms(2) unfolding filter_empty_conv by blast
      then show ?thesis using eq by auto
    next
      case False
      then show ?thesis using eq by auto
    qed
  qed
qed

lemma pollLoop_fst_other:
  "n \<notin> set optionalNames \<Longrightarrow> fst (pollLoop rc r st) n = fst st n"
proof (induction rc r st rule: pollLoop.induct)
  case (1 rc r st)
  show ?case
  proof (cases "r < 3 \<and> snd st \<noteq> []")
    case True
    then have "pollLoop rc r st = pollLoop rc (r + 1) (foldl retryStep st (rc r))"
      by (subst pollLoop.simps) simp
    with 1 True show ?thesis by (simp add: foldl_retryStep_fst split: option.splits)
  next
    case False
    then have "pollLoop rc r st = st" by (subst pollLoop.simps) auto
    then show ?thesis by simp
  qed
qed

lemma wellNamed_upd:
  assumes "wellNamed m" "includesStr (cdomain c) ''manheim''"
  shows "wellNamed (m(cname c \<mapsto> c))"
  unfolding wellNamed_def
proof (intro allI impI)
  fix n x
  assume a: "(m(cname c \<mapsto> c)) n = Some x"
  show "cname x = n \<and> includesStr (cdomain x) ''manheim''"
  proof (cases "n = cname c")
    case True
    with a have "x = c" by simp
    with True assms(2) show ?thesis by simp
  next
    case False
    with a have "m n = Some x" by simp
    with assms(1) show ?thesis unfolding wellNamed_def by blast
  qed
qed

lemma extractStep_wellNamed: "wellNamed m \<Longrightarrow> wellNamed (extractStep m c)"
  unfolding extractStep_def by (simp add: wellNamed_upd)

lemma extractEssential_wellNamed: "wellNamed (extractEssential cs)"
proof -
  have "\<And>m. wellNamed m \<Longrightarrow> wellNamed (foldl extractStep m cs)"
    by (induction cs) (simp_all add: extractStep_wellNamed)
  moreover have "wellNamed Map.empty" unfolding wellNamed_def by simp
  ultimately show ?thesis unfolding extractEssential_def by blast
qed

lemma retryStep_wellNamed: "wellNamed (fst st) \<Longrightarrow> wellNamed (fst (retryStep st c))"
  by (cases st) (simp add: retryStep_def wellNamed_upd)

lemma foldl_retryStep_wellNamed:
  "wellNamed (fst st) \<Longrightarrow> wellNamed (fst (foldl retryStep st cs))"
  by (induction cs arbitrary: st) (simp_all add: retryStep_wellNamed)

lemma pollLoop_wellNamed: "wellNamed (fst st) \<Longrightarrow> wellNamed (fst (pollLoop rc r st))"
proof (induction rc r st rule: pollLoop.induct)
  case (1 rc r st)
  show ?case
  proof (cases "r < 3 \<and> snd st \<noteq> []")
    case True
    then have "pollLoop rc r st = pollLoop rc (r + 1) (foldl retryStep st (rc r))"
      by (subst pollLoop.simps) simp
    with 1 True show ?thesis by (simp add: foldl_retryStep_wellNamed)
  next
    case False
    then have "pollLoop rc r st = st" by (subst pollLoop.simps) auto
    with 1 show ?thesis by simp
  qed
qed

text \<open>The state after the recovery pass.\<close>

lemma recoveryPass_state:
  fixes w :: env
  defines "st0 \<equiv> (extractEssential (e_allCookies w),
                   missingOf (extractEssential (e_allCookies w)) optionalNames)"
  defines "st \<equiv> snd (recoveryPass w st0)"
  shows "consistent st" "wellNamed (fst st)"
    "n \<in> set optionalNames \<Longrightarrow> fst st n = None \<longleftrightarrow> stillMissing w n"
    "n \<notin> set optionalNames \<Longrightarrow> fst st n = extractEssential (e_allCookies w) n"
    "snd st = filter (stillMissing w) optionalNames"
proof -
  have c0: "consistent st0" by (simp add: st0_def consistent_def missingOf_def)
  have w0: "wellNamed (fst st0)" by (simp add: st0_def extractEssential_wellNamed)
  show c: "consistent st"
    using c0 by (simp add: st_def recoveryPass_def pollLoop_consistent split: option.splits)
  show "wellNamed (fst st)"
    using w0 by (simp add: st_def recoveryPass_def pollLoop_wellNamed split: option.splits)
  have opt: "\<And>n. n \<in> set optionalNames \<Longrightarrow> fst st n = None \<longleftrightarrow> stillMissing w n"
  proof -
    fix n assume n: "n \<in> set optionalNames"
    then have ne: "n \<in> set essentialNames" by (auto simp: optionalNames_def essentialNames_def)
    have f0: "fst st0 n = None \<longleftrightarrow> \<not> holds (e_allCookies w) n"
      by (simp add: st0_def extractEssential_None[OF ne])
    have r3: "(\<forall>k. 0 \<le> k \<and> k < 3 \<longrightarrow> \<not> holds (e_retryCookies w k) n) \<longleftrightarrow>
              list_all (\<lambda>k. \<not> holds (e_retryCookies w k) n) [0..<3]"
      by (auto simp: list_all_iff)
    show "fst st n = None \<longleftrightarrow> stillMissing w n"
    proof (cases "snd st0 = []")
      case True
      then have "filter (\<lambda>n. fst st0 n = None) optionalNames = []"
        using c0 by (simp add: consistent_def)
      then have "fst st0 n \<noteq> None" using n unfolding filter_empty_conv by blast
      moreover have "st = st0" using True by (simp add: st_def recoveryPass_def)
      ultimately show ?thesis using f0 by (auto simp: stillMissing_def)
    next
      case False
      show ?thesis
      proof (cases "e_recoveryGoto w")
        case None
        then have "st = pollLoop (e_retryCookies w) 0 st0"
          using False by (simp add: st_def recoveryPass_def)
        then show ?thesis
          using pollLoop_None[OF c0 n, of "e_retryCookies w" 0] f0 r3 None
          by (simp add: stillMissing_def)
      next
        case (Some msg)
        then have "st = st0" using False by (simp add: st_def recoveryPass_def)
        then show ?thesis using f0 Some by (simp add: stillMissing_def)
      qed
    qed
  qed
  show "n \<in> set optionalNames \<Longrightarrow> fst st n = None \<longleftrightarrow> stillMissing w n" by (rule opt)
  show "n \<notin> set optionalNames \<Longrightarrow> fst st n = extractEssential (e_allCookies w) n"
    by (simp add: st_def st0_def recoveryPass_def pollLoop_fst_other split: option.splits)
  show "snd st = filter (stillMissing w) optionalNames"
    using c opt by (simp add: consistent_def optionalNames_def)
qed

lemma cookieArray_names:
  assumes "wellNamed m"
  shows "map cname (cookieArray m) = filter (\<lambda>n. m n \<noteq> None) essentialNames \<and>
         (\<forall>c \<in> set (cookieArray m). includesStr (cdomain c) ''manheim'')"
proof -
  have k: "\<And>n c. m n = Some c \<Longrightarrow> cname c = n \<and> includesStr (cdomain c) ''manheim''"
    using assms unfolding wellNamed_def by blast
  show ?thesis
  proof (cases "m ''_cl''"; cases "m ''SESSION''"; cases "m ''session''";
         cases "m ''session.sig''")
  qed (simp_all add: cookieArray_def List.map_filter_def essentialNames_def k)
qed

lemma extract_present:
  assumes "holds (e_allCookies w) ''_cl''" "holds (e_allCookies w) ''SESSION''"
  shows "extractAndDeliver cfg w =
     (let st = snd (recoveryPass w (extractEssential (e_allCookies w),
                      missingOf (extractEssential (e_allCookies w)) optionalNames));
          isPartial = (snd st \<noteq> []);
          payload = webhookPayload (e_timestamp w) isPartial (snd st) (fst st)
      in andThen
           (fst (recoveryPass w (extractEssential (e_allCookies w),
                      missingOf (extractEssential (e_allCookies w)) optionalNames)) @
            (if isPartial then [StoreWrite ''all-cookies-debug''] else []),
            if isPartial then
              (case e_debugWrite w of Some msg \<Rightarrow> Inl (Thrown msg) | None \<Rightarrow> Inr ())
            else Inr ())
           (\<lambda>_. andThen ([StoreWrite ''saved-cookies''], Inr ()) (\<lambda>_. deliver cfg w payload)))"
proof -
  have "missingOf (extractEssential (e_allCookies w)) requiredNames = []"
    using assms by (simp add: missingRequired_iff)
  then show ?thesis
    unfolding extractAndDeliver_def Let_def
    by (simp split: prod.splits)
qed

lemma run_after_warmup:
  assumes "preflight input = Inr cfg" "snd (injectCookies cfg w) = Inr b"
      and "snd (authenticate cfg w b) = Inr ()" "e_warmUp w = None"
  shows "snd (Actor_main input w) = snd (extractAndDeliver cfg w)"
    "postsOf (fst (Actor_main input w)) =
       postsOf (fst (extractAndDeliver cfg w)) @
       (case snd (extractAndDeliver cfg w) of
          Inl e \<Rightarrow> [(cookieWebhookUrl cfg, failurePayload (e_failureTimestamp w) e)]
        | Inr u \<Rightarrow> [])"
proof -
  have t: "snd (tryBlock cfg w b) = snd (extractAndDeliver cfg w)"
    "postsOf (fst (tryBlock cfg w b)) = postsOf (fst (extractAndDeliver cfg w))"
    using assms(3,4)
    by (simp_all add: tryBlock_def andThen_fst andThen_snd warmUp_def postsOf_append
        authenticate_posts)
  show "snd (Actor_main input w) = snd (extractAndDeliver cfg w)"
    using assms(1,2) t(1) by (simp add: Actor_main_snd)
  show "postsOf (fst (Actor_main input w)) =
       postsOf (fst (extractAndDeliver cfg w)) @
       (case snd (extractAndDeliver cfg w) of
          Inl e \<Rightarrow> [(cookieWebhookUrl cfg, failurePayload (e_failureTimestamp w) e)]
        | Inr u \<Rightarrow> [])"
    using assms(1,2) t
    by (simp add: Actor_main_fst guarded_fst postsOf_append launch_posts injectCookies_posts
        split: sum.splits)
qed

lemma extractEssential_eq:
  "extractEssential cs n = (if n \<in> set essentialNames then firstHeld cs n else None)"
  by (simp add: extractEssential_def foldl_extractStep firstHeld_def)

lemma pollLoop_fst:
  assumes "consistent st" "n \<in> set optionalNames"
  shows "fst (pollLoop rc r st) n =
           (case fst st n of Some c \<Rightarrow> Some c | None \<Rightarrow> firstPolled rc r n)"
  using assms(1)
proof (induction rc r st rule: pollLoop.induct)
  case (1 rc r st)
  show ?case
  proof (cases "r < 3 \<and> snd st \<noteq> []")
    case True
    then have eq: "pollLoop rc r st = pollLoop rc (r + 1) (foldl retryStep st (rc r))"
      by (subst pollLoop.simps) simp
    have c: "consistent (foldl retryStep st (rc r))"
      using 1(2) by (rule foldl_retryStep_consistent)
    have p: "firstPolled rc r n =
               (case firstHeld (rc r) n of Some c \<Rightarrow> Some c | None \<Rightarrow> firstPolled rc (r + 1) n)"
      using True by (subst firstPolled.simps) simp
    have "fst (pollLoop rc r st) n =
            (case fst (foldl retryStep st (rc r)) n of
               Some c \<Rightarrow> Some c | None \<Rightarrow> firstPolled rc (r + 1) n)"
      using 1(1)[OF True c] eq by simp
    also have "\<dots> = (case fst st n of Some c \<Rightarrow> Some c | None \<Rightarrow> firstPolled rc r n)"
      using assms(2) by (simp add: foldl_retryStep_fst p firstHeld_def split: option.splits)
    finally show ?thesis .
  next
    case False
    then have eq: "pollLoop rc r st = st" by (subst pollLoop.simps) auto
    show ?thesis
    proof (cases "r < 3")
      case True
      with False have "snd st = []" by simp
      then have "filter (\<lambda>n. fst st n = None) optionalNames = []"
        using 1(2) by (simp add: consistent_def)
      then have "fst st n \<noteq> None"
        using assms(2) unfolding filter_empty_conv by blast
      then show ?thesis using eq by auto
    next
      case False
      then have "firstPolled rc r n = None" by (subst firstPolled.simps) simp
      then show ?thesis using eq by (simp split: option.splits)
    qed
  qed
qed

lemma recoveryPass_final:
  fixes w :: env
  defines "st0 \<equiv> (extractEssential (e_allCookies w),
                   missingOf (extractEssential (e_allCookies w)) optionalNames)"
  shows "fst (snd (recoveryPass w st0)) n =
           (if n \<in> set essentialNames then finalCookie w n else None)"
proof (cases "n \<in> set optionalNames")
  case False
  have "fst (snd (recoveryPass w st0)) n = extractEssential (e_allCookies w) n"
    unfolding st0_def by (rule recoveryPass_state(4)[OF False])
  then show ?thesis using False
    by (simp add: extractEssential_eq finalCookie_def split: option.splits)
next
  case True
  then have ne: "n \<in> set essentialNames" by (auto simp: optionalNames_def essentialNames_def)
  have c0: "consistent st0" by (simp add: st0_def consistent_def missingOf_def)
  have f0: "fst st0 n = firstHeld (e_allCookies w) n"
    using ne by (simp add: st0_def extractEssential_eq)
  show ?thesis
  proof (cases "snd st0 = []")
    case e: True
    then have "filter (\<lambda>n. fst st0 n = None) optionalNames = []"
      using c0 by (simp add: consistent_def)
    then have "fst st0 n \<noteq> None" using True unfolding filter_empty_conv by blast
    moreover have "snd (recoveryPass w st0) = st0" using e by (simp add: recoveryPass_def)
    ultimately show ?thesis using f0 ne by (auto simp: finalCookie_def)
  next
    case ne0: False
    show ?thesis
    proof (cases "e_recoveryGoto w")
      case None
      then have "snd (recoveryPass w st0) = pollLoop (e_retryCookies w) 0 st0"
        using ne0 by (simp add: recoveryPass_def)
      then show ?thesis
        using pollLoop_fst[OF c0 True, of "e_retryCookies w" 0] f0 None ne True
        by (simp add: finalCookie_def)
    next
      case (Some msg)
      then have "snd (recoveryPass w st0) = st0" using ne0 by (simp add: recoveryPass_def)
      then show ?thesis using f0 Some ne by (simp add: finalCookie_def split: option.splits)
    qed
  qed
qed

lemma cookieArray_final:
  assumes "\<And>n. m n = (if n \<in> set essentialNames then f n else None)"
  shows "cookieArray m = List.map_filter f essentialNames"
  by (simp add: cookieArray_def essentialNames_def assms List.map_filter_def)

lemma success_posts:
  "filter isSuccessPost evs = [] \<longleftrightarrow> (\<forall>p \<in> set (postsOf evs). \<not> success (snd p))"
  by (induction evs rule: postsOf.induct) auto

text \<open>
  The partial result when nothing else goes wrong. The browser holds both required cookies
  at extraction, and the debug record of the partial case can be written (or no optional
  cookie is missing, and it is not written). Then the extraction does not fail: exactly
  one envelope is posted to the cookie webhook, and the result of the run from there on is
  the result of its delivery (success when the webhook answers 2xx and the backup is
  stored); for a whole run that reaches the extraction, this envelope is its first POST,
  followed by the failure envelope only when the delivery itself fails. With \<open>missing\<close>
  the optional names that remain absent after the bounded recovery pass, the envelope has
  \<open>success: true\<close>, \<open>partial\<close> true exactly when \<open>missing\<close> is not empty, \<open>missingCookies\<close>
  equal to \<open>missing\<close> in that case, and a \<open>cookies\<close> array that holds, in the order of the
  essential names, the very cookies the browser gave (\<open>finalCookie\<close>) for the names that
  are not missing, each from a manheim domain; when nothing is missing, \<open>partial\<close> is false
  and the array has 4 elements.
\<close>

theorem partial_delivery:
  fixes w :: env and cfg :: config
  defines "missing \<equiv> filter (stillMissing w) optionalNames"
  assumes req: "holds (e_allCookies w) ''_cl''" "holds (e_allCookies w) ''SESSION''"
      and dbg: "missing = [] \<or> e_debugWrite w = None"
  shows "\<exists>payload found.
      postsOf (fst (extractAndDeliver cfg w)) = [(cookieWebhookUrl cfg, payload)] \<and>
      snd (extractAndDeliver cfg w) = snd (deliver cfg w payload) \<and>
      success payload = True \<and>
      partial payload = Some (missing \<noteq> []) \<and>
      missingCookies payload = (if missing \<noteq> [] then Some missing else None) \<and>
      timestamp payload = e_timestamp w \<and>
      cookies payload = Some found \<and>
      found = List.map_filter (finalCookie w) essentialNames \<and>
      (\<forall>n \<in> set essentialNames. finalCookie w n = None \<longleftrightarrow> n \<in> set missing) \<and>
      map cname found = filter (\<lambda>n. n \<notin> set missing) essentialNames \<and>
      (\<forall>c \<in> set found. includesStr (cdomain c) ''manheim'') \<and>
      (missing = [] \<longrightarrow> length found = 4) \<and>
      (\<forall>status body. e_delivery w = FetchResponse status body \<and> ok status \<and>
          e_backupWrite w = None \<longrightarrow> snd (extractAndDeliver cfg w) = Inr ()) \<and>
      (\<forall>input b. preflight input = Inr cfg \<and> snd (injectCookies cfg w) = Inr b \<and>
          snd (authenticate cfg w b) = Inr () \<and> e_warmUp w = None \<longrightarrow>
          snd (Actor_main input w) = snd (deliver cfg w payload) \<and>
          postsOf (fst (Actor_main input w)) =
            (cookieWebhookUrl cfg, payload) #
            (case snd (deliver cfg w payload) of
               Inl e \<Rightarrow> [(cookieWebhookUrl cfg, failurePayload (e_failureTimestamp w) e)]
             | Inr u \<Rightarrow> []))"
proof -
  define st0 where "st0 = (extractEssential (e_allCookies w),
                           missingOf (extractEssential (e_allCookies w)) optionalNames)"
  define st where "st = snd (recoveryPass w st0)"
  define payload where
    "payload = webhookPayload (e_timestamp w) (snd st \<noteq> []) (snd st) (fst st)"
  have wn: "wellNamed (fst st)"
    and opt: "\<And>n. n \<in> set optionalNames \<Longrightarrow> fst st n = None \<longleftrightarrow> stillMissing w n"
    and oth: "\<And>n. n \<notin> set optionalNames \<Longrightarrow> fst st n = extractEssential (e_allCookies w) n"
    and miss: "snd st = missing"
    unfolding st_def st0_def missing_def
    by (rule recoveryPass_state(2), rule recoveryPass_state(3), assumption,
        rule recoveryPass_state(4), assumption, rule recoveryPass_state(5))
  have fin: "\<And>n. fst st n = (if n \<in> set essentialNames then finalCookie w n else None)"
    unfolding st_def st0_def by (rule recoveryPass_final)
  have run0: "extractAndDeliver cfg w =
      andThen (fst (recoveryPass w st0) @
                 (if snd st \<noteq> [] then [StoreWrite ''all-cookies-debug''] else []),
               if snd st \<noteq> [] then
                 (case e_debugWrite w of Some msg \<Rightarrow> Inl (Thrown msg) | None \<Rightarrow> Inr ())
               else Inr ())
        (\<lambda>_. andThen ([StoreWrite ''saved-cookies''], Inr ()) (\<lambda>_. deliver cfg w payload))"
    unfolding payload_def st_def st0_def using extract_present[OF req, of cfg]
    by (simp add: Let_def)
  have run: "extractAndDeliver cfg w =
      andThen (fst (recoveryPass w st0) @
                 (if missing \<noteq> [] then [StoreWrite ''all-cookies-debug''] else []),
               Inr ())
        (\<lambda>_. andThen ([StoreWrite ''saved-cookies''], Inr ()) (\<lambda>_. deliver cfg w payload))"
    using dbg by (cases "missing = []") (auto simp: run0 miss)
  have p: "postsOf (fst (extractAndDeliver cfg w)) = [(cookieWebhookUrl cfg, payload)]"
    by (simp add: run andThen_fst andThen_snd postsOf_append recoveryPass_posts deliver_posts)
  have s: "snd (extractAndDeliver cfg w) = snd (deliver cfg w payload)"
    by (simp add: run andThen_snd)
  have none: "\<And>n. n \<in> set essentialNames \<Longrightarrow> (fst st n \<noteq> None) = (n \<notin> set missing)"
  proof -
    fix n assume n: "n \<in> set essentialNames"
    show "(fst st n \<noteq> None) = (n \<notin> set missing)"
    proof (cases "n \<in> set optionalNames")
      case True
      then show ?thesis using opt[OF True] by (simp add: missing_def)
    next
      case False
      with n have r: "n = ''_cl'' \<or> n = ''SESSION''"
        by (auto simp: essentialNames_def optionalNames_def)
      have "extractEssential (e_allCookies w) n \<noteq> None"
        using r req extractEssential_None[OF n, of "e_allCookies w"] by auto
      then show ?thesis using oth[OF False] False by (simp add: missing_def)
    qed
  qed
  have names: "filter (\<lambda>n. fst st n \<noteq> None) essentialNames =
               filter (\<lambda>n. n \<notin> set missing) essentialNames"
    by (rule filter_cong[OF refl]) (rule none)
  have fnone: "\<forall>n \<in> set essentialNames. finalCookie w n = None \<longleftrightarrow> n \<in> set missing"
  proof
    fix n assume n: "n \<in> set essentialNames"
    have "fst st n = finalCookie w n" using fin[of n] n by simp
    then show "finalCookie w n = None \<longleftrightarrow> n \<in> set missing" using none[OF n] by auto
  qed
  have arr: "cookieArray (fst st) = List.map_filter (finalCookie w) essentialNames"
    by (rule cookieArray_final) (rule fin)
  have c: "map cname (cookieArray (fst st)) = filter (\<lambda>n. n \<notin> set missing) essentialNames"
    "\<forall>c \<in> set (cookieArray (fst st)). includesStr (cdomain c) ''manheim''"
    using cookieArray_names[OF wn] names by simp_all
  have four: "missing = [] \<longrightarrow> length (cookieArray (fst st)) = 4"
  proof
    assume "missing = []"
    then have "map cname (cookieArray (fst st)) = essentialNames" using c(1) by simp
    then have "length (map cname (cookieArray (fst st))) = length essentialNames" by simp
    then show "length (cookieArray (fst st)) = 4" by (simp add: essentialNames_def)
  qed
  have d: "\<forall>status body. e_delivery w = FetchResponse status body \<and> ok status \<and>
          e_backupWrite w = None \<longrightarrow> snd (extractAndDeliver cfg w) = Inr ()"
    by (simp add: s deliver_def)
  have f: "success payload = True" "partial payload = Some (missing \<noteq> [])"
    "missingCookies payload = (if missing \<noteq> [] then Some missing else None)"
    "timestamp payload = e_timestamp w"
    "cookies payload = Some (cookieArray (fst st))"
    by (simp_all add: payload_def webhookPayload_def miss)
  have whole: "\<forall>input b. preflight input = Inr cfg \<and> snd (injectCookies cfg w) = Inr b \<and>
          snd (authenticate cfg w b) = Inr () \<and> e_warmUp w = None \<longrightarrow>
          snd (Actor_main input w) = snd (deliver cfg w payload) \<and>
          postsOf (fst (Actor_main input w)) =
            (cookieWebhookUrl cfg, payload) #
            (case snd (deliver cfg w payload) of
               Inl e \<Rightarrow> [(cookieWebhookUrl cfg, failurePayload (e_failureTimestamp w) e)]
             | Inr u \<Rightarrow> [])"
    using run_after_warmup[of _ cfg w] p s by simp
  from p s f arr fnone c four d whole show ?thesis by blast
qed

text \<open>
  The lemma at two runs with input cookies. In the first the browser ends with the two
  required cookies, the recovery pass finds \<open>session\<close> and never \<open>session.sig\<close>: the run
  succeeds and delivers a partial envelope with three cookies. In the second the browser
  ends with all four: the envelope is not partial and has four cookies.
\<close>

theorem partial_delivery_example:
  "holds (e_allCookies partialWorld) ''_cl'' \<and> holds (e_allCookies partialWorld) ''SESSION'' \<and>
   e_debugWrite partialWorld = None \<and>
   filter (stillMissing partialWorld) optionalNames = [''session.sig''] \<and>
   map (\<lambda>p. (fst p, success (snd p), partial (snd p), missingCookies (snd p), cookies (snd p)))
     (postsOf (fst (Actor_main (Some cookieInput) partialWorld))) =
     [(''https://hooks.example/cookies'', True, Some True, Some [''session.sig''],
       Some (take 3 fourCookies))] \<and>
   snd (Actor_main (Some cookieInput) partialWorld) = Inr () \<and>
   holds (e_allCookies quietEnv) ''_cl'' \<and> holds (e_allCookies quietEnv) ''SESSION'' \<and>
   filter (stillMissing quietEnv) optionalNames = [] \<and>
   map (\<lambda>p. (fst p, success (snd p), partial (snd p), missingCookies (snd p), cookies (snd p)))
     (postsOf (fst (Actor_main (Some cookieInput) quietEnv))) =
     [(''https://hooks.example/cookies'', True, Some False, None, Some fourCookies)] \<and>
   snd (Actor_main (Some cookieInput) quietEnv) = Inr ()"
proof -
  have h: "holds (e_allCookies partialWorld) ''_cl''"
    "holds (e_allCookies partialWorld) ''SESSION''"
    by (simp_all add: partialWorld_def holds_def fixture_eval)
  have d: "e_debugWrite partialWorld = None" by (simp add: partialWorld_def quietEnv_def)
  have m: "filter (stillMissing partialWorld) optionalNames = [''session.sig'']"
    by (simp add: partialWorld_def stillMissing_def holds_def optionalNames_def fixture_eval
        upt_rec)
  have r: "map (\<lambda>p. (fst p, success (snd p), partial (snd p), missingCookies (snd p),
                     cookies (snd p)))
     (postsOf (fst (Actor_main (Some cookieInput) partialWorld))) =
     [(''https://hooks.example/cookies'', True, Some True, Some [''session.sig''],
       Some (take 3 fourCookies))]"
     "snd (Actor_main (Some cookieInput) partialWorld) = Inr ()"
    by (simp_all add: partialWorld_def run_eval fixture_eval)
  have h': "holds (e_allCookies quietEnv) ''_cl''" "holds (e_allCookies quietEnv) ''SESSION''"
    by (simp_all add: holds_def fixture_eval)
  have m': "filter (stillMissing quietEnv) optionalNames = []"
    by (simp add: stillMissing_def holds_def optionalNames_def fixture_eval)
  have r': "map (\<lambda>p. (fst p, success (snd p), partial (snd p), missingCookies (snd p),
                      cookies (snd p)))
     (postsOf (fst (Actor_main (Some cookieInput) quietEnv))) =
     [(''https://hooks.example/cookies'', True, Some False, None, Some fourCookies)]"
     "snd (Actor_main (Some cookieInput) quietEnv) = Inr ()"
    by (simp_all add: run_eval fixture_eval)
  note t = partial_delivery[OF h disjI2[OF d], of cookieConfig]
    partial_delivery[OF h' disjI1[OF m'], of cookieConfig]
  from t h d m r h' m' r' show ?thesis by simp
qed

text \<open>
  C4: with both required cookies present and an optional cookie still absent after the
  bounded recovery pass, the run is meant not to fail (the comment of line 1479: "If STILL
  missing, mark as partial but DO NOT fail") and to deliver an envelope with
  \<open>success: true\<close> and \<open>partial: true\<close>. The code does so only when the write of the debug
  record on line 1484 returns. That write, \<open>Actor.setValue('all-cookies-debug', ...)\<close>,
  is made on the partial path only and stands outside the \<open>try\<close>/\<open>catch\<close> of the recovery
  pass, whereas \<open>saveCookiesToKV\<close> catches the errors of the store. When it throws, the
  extraction throws the same error before any envelope is built: the run fails with that
  error, its only POST to the cookie webhook is the failure envelope, and no envelope with
  \<open>success: true\<close> is delivered, whatever the webhook would have answered.
\<close>

theorem partial_debug_write_fatal:
  fixes w :: env and cfg :: config
  assumes req: "holds (e_allCookies w) ''_cl''" "holds (e_allCookies w) ''SESSION''"
      and miss: "filter (stillMissing w) optionalNames \<noteq> []"
      and dbg: "e_debugWrite w = Some msg"
      and run: "preflight input = Inr cfg" "snd (injectCookies cfg w) = Inr b"
               "snd (authenticate cfg w b) = Inr ()" "e_warmUp w = None"
  shows "snd (extractAndDeliver cfg w) = Inl (Thrown msg) \<and>
         postsOf (fst (extractAndDeliver cfg w)) = [] \<and>
         snd (Actor_main input w) = Inl (Thrown msg) \<and>
         postsOf (fst (Actor_main input w)) =
           [(cookieWebhookUrl cfg, failurePayload (e_failureTimestamp w) (Thrown msg))] \<and>
         filter isSuccessPost (fst (Actor_main input w)) = []"
proof -
  define st0 where "st0 = (extractEssential (e_allCookies w),
                           missingOf (extractEssential (e_allCookies w)) optionalNames)"
  define st where "st = snd (recoveryPass w st0)"
  define payload where
    "payload = webhookPayload (e_timestamp w) (snd st \<noteq> []) (snd st) (fst st)"
  have m: "snd st \<noteq> []"
    unfolding st_def st0_def using miss recoveryPass_state(5)[of w] by simp
  have run0: "extractAndDeliver cfg w =
      andThen (fst (recoveryPass w st0) @
                 (if snd st \<noteq> [] then [StoreWrite ''all-cookies-debug''] else []),
               if snd st \<noteq> [] then
                 (case e_debugWrite w of Some msg \<Rightarrow> Inl (Thrown msg) | None \<Rightarrow> Inr ())
               else Inr ())
        (\<lambda>_. andThen ([StoreWrite ''saved-cookies''], Inr ()) (\<lambda>_. deliver cfg w payload))"
    unfolding payload_def st_def st0_def using extract_present[OF req, of cfg]
    by (simp add: Let_def)
  have s: "snd (extractAndDeliver cfg w) = Inl (Thrown msg)"
    using m dbg by (simp add: run0 andThen_snd)
  have p: "postsOf (fst (extractAndDeliver cfg w)) = []"
    using m dbg by (simp add: run0 andThen_fst postsOf_append recoveryPass_posts)
  have a: "snd (Actor_main input w) = Inl (Thrown msg)"
    using run_after_warmup(1)[OF run] s by simp
  have b: "postsOf (fst (Actor_main input w)) =
           [(cookieWebhookUrl cfg, failurePayload (e_failureTimestamp w) (Thrown msg))]"
    using run_after_warmup(2)[OF run] s p by simp
  have c: "filter isSuccessPost (fst (Actor_main input w)) = []"
    by (simp add: success_posts b failurePayload_def)
  from s p a b c show ?thesis by simp
qed

text \<open>
  The theorem at a run with input cookies in which the browser ends with the two required
  cookies, the recovery pass finds \<open>session\<close> and never \<open>session.sig\<close>, the cookie webhook
  answers 200 and the store refuses the debug record: the run fails with the error of the
  store and posts the failure envelope only. The same run with a store that accepts the
  record succeeds.
\<close>

theorem partial_debug_write_fatal_witness:
  "holds (e_allCookies storeDownWorld) ''_cl'' \<and>
   holds (e_allCookies storeDownWorld) ''SESSION'' \<and>
   filter (stillMissing storeDownWorld) optionalNames = [''session.sig''] \<and>
   e_debugWrite storeDownWorld = Some ''Key-value store is unavailable'' \<and>
   e_delivery storeDownWorld = FetchResponse 200 ''ok'' \<and>
   preflight (Some cookieInput) = Inr cookieConfig \<and>
   snd (injectCookies cookieConfig storeDownWorld) = Inr True \<and>
   snd (authenticate cookieConfig storeDownWorld True) = Inr () \<and>
   e_warmUp storeDownWorld = None \<and>
   snd (Actor_main (Some cookieInput) storeDownWorld) =
     Inl (Thrown ''Key-value store is unavailable'') \<and>
   postsOf (fst (Actor_main (Some cookieInput) storeDownWorld)) =
     [(''https://hooks.example/cookies'',
       failurePayload ''2025-01-28T10:31:00.000Z'' (Thrown ''Key-value store is unavailable''))] \<and>
   filter isSuccessPost (fst (Actor_main (Some cookieInput) storeDownWorld)) = [] \<and>
   snd (Actor_main (Some cookieInput) partialWorld) = Inr ()"
proof -
  have h: "holds (e_allCookies storeDownWorld) ''_cl''"
    "holds (e_allCookies storeDownWorld) ''SESSION''"
    by (simp_all add: storeDownWorld_def partialWorld_def holds_def fixture_eval)
  have m: "filter (stillMissing storeDownWorld) optionalNames = [''session.sig'']"
    by (simp add: storeDownWorld_def partialWorld_def stillMissing_def holds_def
        optionalNames_def fixture_eval upt_rec)
  then have m': "filter (stillMissing storeDownWorld) optionalNames \<noteq> []" by simp
  have d: "e_debugWrite storeDownWorld = Some ''Key-value store is unavailable''"
    "e_delivery storeDownWorld = FetchResponse 200 ''ok''"
    "e_warmUp storeDownWorld = None"
    "e_failureTimestamp storeDownWorld = ''2025-01-28T10:31:00.000Z''"
    by (simp_all add: storeDownWorld_def partialWorld_def quietEnv_def)
  have r: "preflight (Some cookieInput) = Inr cookieConfig"
    "snd (injectCookies cookieConfig storeDownWorld) = Inr True"
    "snd (authenticate cookieConfig storeDownWorld True) = Inr ()"
    by (simp_all add: storeDownWorld_def partialWorld_def run_eval fixture_eval)
  have q: "snd (Actor_main (Some cookieInput) partialWorld) = Inr ()"
    by (simp add: partialWorld_def run_eval fixture_eval)
  have u: "cookieWebhookUrl cookieConfig = ''https://hooks.example/cookies''"
    by (simp add: cookieConfig_def)
  note t = partial_debug_write_fatal[OF h m' d(1) r d(3)]
  from t h m d r q u show ?thesis by simp
qed

subsection \<open>After the credentials are submitted\<close>




end
